theory Spec2Isabelle
  imports Complex_Main
begin

section \<open>Configuration (config/GameConfig.ts)\<close>

text \<open>
  JavaScript numbers are modelled as \<open>int\<close> where the program only ever stores
  integers in them (HP, ship counts, thresholds, the countdown) and as \<open>real\<close> where it
  stores fractions (positions, cooldowns in frames, overcharge, timestamps). The reals are
  an idealisation of IEEE doubles: rounding error is not modelled.
\<close>

datatype Owner = Player | AI | Neutral

datatype PlanetType = Generator | Fortress | Launcher | Standard

datatype GameMode = Classic | Quick | TimeAttack

datatype TimeAttackMode = TA30 | TA60 | TA90 | TA120

fun TIME_ATTACK_MODES :: "TimeAttackMode \<Rightarrow> int" where
  "TIME_ATTACK_MODES TA30 = 30"
| "TIME_ATTACK_MODES TA60 = 60"
| "TIME_ATTACK_MODES TA90 = 90"
| "TIME_ATTACK_MODES TA120 = 120"

record ModeConfig =
  duration :: int
  majorityThreshold :: int
  mode_name :: string

definition GAME_MODES_CLASSIC :: ModeConfig where
  "GAME_MODES_CLASSIC = \<lparr>duration = 120, majorityThreshold = 5, mode_name = ''Classique''\<rparr>"

definition GAME_MODES_QUICK :: ModeConfig where
  "GAME_MODES_QUICK = \<lparr>duration = 60, majorityThreshold = 4, mode_name = ''Rapide''\<rparr>"

definition GAME_MODES_TIME_ATTACK :: ModeConfig where
  "GAME_MODES_TIME_ATTACK = \<lparr>duration = 60, majorityThreshold = 4, mode_name = ''Time Attack''\<rparr>"

text \<open>
  \<^verbatim>\<open>getMajorityThreshold(mode: GameMode = 'classic')\<close>: the argument is optional and
  defaults to classic; \<open>None\<close> is the omitted argument.
\<close>

definition getMajorityThreshold :: "GameMode option \<Rightarrow> int" where
  "getMajorityThreshold arg =
     (let mode = (case arg of None \<Rightarrow> Classic | Some m \<Rightarrow> m)
      in if mode = Quick then majorityThreshold GAME_MODES_QUICK
         else majorityThreshold GAME_MODES_CLASSIC)"

definition SUN_MAX_HP :: int where "SUN_MAX_HP = 3"

definition ATTACK_COST_BASE :: int where "ATTACK_COST_BASE = 5"

definition ATTACK_COST_DISTANCE_MULTIPLIER :: real where
  "ATTACK_COST_DISTANCE_MULTIPLIER = 1 / 100"

definition ATTACK_COST_MIN :: int where "ATTACK_COST_MIN = 5"

definition ATTACK_COST_MAX :: int where "ATTACK_COST_MAX = 15"

definition SUN_ATTACK_COOLDOWN :: real where "SUN_ATTACK_COOLDOWN = 180"

definition SUN_OVERCHARGE_MULTIPLIER :: real where "SUN_OVERCHARGE_MULTIPLIER = 2"

definition SUN_OVERCHARGE_DECAY :: real where "SUN_OVERCHARGE_DECAY = 1 / 2"

definition TRIANGLE_BASE_SPEED :: real where "TRIANGLE_BASE_SPEED = 200"

definition SUN_HIT_THRESHOLD :: real where "SUN_HIT_THRESHOLD = 80"

record PlanetTypeConfig =
  production :: int
  attackCostModifier :: int
  speedBonus :: "real option"

fun PLANET_TYPES :: "PlanetType \<Rightarrow> PlanetTypeConfig" where
  "PLANET_TYPES Generator = \<lparr>production = 2, attackCostModifier = 2, speedBonus = None\<rparr>"
| "PLANET_TYPES Fortress = \<lparr>production = 1, attackCostModifier = - 1, speedBonus = None\<rparr>"
| "PLANET_TYPES Launcher = \<lparr>production = 1, attackCostModifier = 0, speedBonus = Some (3 / 2)\<rparr>"
| "PLANET_TYPES Standard = \<lparr>production = 1, attackCostModifier = 0, speedBonus = None\<rparr>"


section \<open>The game store (store/gameStore.ts)\<close>

record GameStore =
  gameMode :: GameMode
  timeAttackMode :: "TimeAttackMode option"
  sunHP :: int
  sunOwner :: "Owner option"
  sunAttackCooldown :: real
  sunAIAttackCooldown :: real
  sunOvercharge :: real
  lastSunAttackTime :: real
  lastSunAIAttackTime :: real
  timer :: int
  captureTime :: int
  attacksLaunched :: nat
  planetsConquered :: nat

definition store_init :: GameStore where
  "store_init =
     \<lparr>gameMode = Classic, timeAttackMode = None, sunHP = 3, sunOwner = None,
      sunAttackCooldown = 0, sunAIAttackCooldown = 0, sunOvercharge = 0,
      lastSunAttackTime = 0, lastSunAIAttackTime = 0, timer = 120, captureTime = 0,
      attacksLaunched = 0, planetsConquered = 0\<rparr>"

definition damageSun :: "Owner \<Rightarrow> GameStore \<Rightarrow> GameStore" where
  "damageSun attacker st =
     (if sunHP st > 0 then
        (let newHP = sunHP st - 1;
             st1 = st\<lparr>sunHP := newHP\<rparr>
         in if newHP = 0 then st1\<lparr>sunOwner := Some attacker\<rparr> else st1)
      else st)"

definition captureSun :: "Owner \<Rightarrow> GameStore \<Rightarrow> GameStore" where
  "captureSun ow st = st\<lparr>sunOwner := Some ow, sunHP := 0\<rparr>"

definition updateSunCooldown :: "real \<Rightarrow> GameStore \<Rightarrow> GameStore" where
  "updateSunCooldown delta st =
     (let newCooldown = max 0 (sunAttackCooldown st - delta);
          newAICooldown = max 0 (sunAIAttackCooldown st - delta);
          overchargeDecay = SUN_OVERCHARGE_DECAY * (delta / 60);
          newOvercharge = max 0 (sunOvercharge st - overchargeDecay)
      in st\<lparr>sunAttackCooldown := newCooldown,
            sunAIAttackCooldown := newAICooldown,
            sunOvercharge := newOvercharge\<rparr>)"

definition canAttackSun :: "Owner \<Rightarrow> GameStore \<Rightarrow> bool" where
  "canAttackSun ow st =
     (if sunOwner st \<noteq> None then False
      else if ow = Player then sunAttackCooldown st \<le> 0
      else sunAIAttackCooldown st \<le> 0)"

definition getSunAttackCost :: "GameStore \<Rightarrow> int" where
  "getSunAttackCost st =
     (let baseCost = ATTACK_COST_BASE;
          overchargeCost = \<lfloor>sunOvercharge st * SUN_OVERCHARGE_MULTIPLIER\<rfloor>
      in baseCost + overchargeCost)"

text \<open>
  \<^verbatim>\<open>registerSunAttack\<close> reads the wall clock (\<^verbatim>\<open>Date.now()\<close>, milliseconds); the
  model takes the reading as the argument \<open>now\<close>. \<open>None\<close> is the source's
  \<^verbatim>\<open>Infinity\<close> for "no previous attack".
\<close>

definition registerSunAttack :: "Owner \<Rightarrow> real \<Rightarrow> GameStore \<Rightarrow> GameStore" where
  "registerSunAttack ow now st =
     (let timeSinceLastAttack =
            (if ow = Player \<and> lastSunAttackTime st > 0
               then Some ((now - lastSunAttackTime st) / 1000)
             else if ow = AI \<and> lastSunAIAttackTime st > 0
               then Some ((now - lastSunAIAttackTime st) / 1000)
             else None);
          newOvercharge =
            (case timeSinceLastAttack of
               Some t \<Rightarrow> if t < 5 then sunOvercharge st + SUN_OVERCHARGE_MULTIPLIER
                         else sunOvercharge st
             | None \<Rightarrow> sunOvercharge st)
      in if ow = Player then
           st\<lparr>sunAttackCooldown := SUN_ATTACK_COOLDOWN,
              sunOvercharge := newOvercharge,
              lastSunAttackTime := now\<rparr>
         else
           st\<lparr>sunAIAttackCooldown := SUN_ATTACK_COOLDOWN,
              sunOvercharge := newOvercharge,
              lastSunAIAttackTime := now\<rparr>)"

text \<open>Frames of the game loop in a row, each calling \<^verbatim>\<open>updateSunCooldown(delta)\<close>.\<close>

fun decay_ticks :: "real list \<Rightarrow> GameStore \<Rightarrow> GameStore" where
  "decay_ticks [] st = st"
| "decay_ticks (delta # ds) st = decay_ticks ds (updateSunCooldown delta st)"

text \<open>
  What happens to the store's Sun fields during play, in order: frames of the game loop
  and Sun attacks of the two factions (with the clock reading of each attack).
\<close>

datatype SunEvent = Frame real | SunAttack Owner real

fun apply_sun_event :: "SunEvent \<Rightarrow> GameStore \<Rightarrow> GameStore" where
  "apply_sun_event (Frame delta) st = updateSunCooldown delta st"
| "apply_sun_event (SunAttack ow now) st = registerSunAttack ow now st"

fun sun_events :: "SunEvent list \<Rightarrow> GameStore \<Rightarrow> GameStore" where
  "sun_events [] st = st"
| "sun_events (e # es) st = sun_events es (apply_sun_event e st)"

text \<open>The per-faction fields, for stating properties of both factions at once.\<close>

definition cooldownOf :: "Owner \<Rightarrow> GameStore \<Rightarrow> real" where
  "cooldownOf ow st = (if ow = Player then sunAttackCooldown st else sunAIAttackCooldown st)"

definition lastAttackOf :: "Owner \<Rightarrow> GameStore \<Rightarrow> real" where
  "lastAttackOf ow st = (if ow = Player then lastSunAttackTime st else lastSunAIAttackTime st)"

definition otherFaction :: "Owner \<Rightarrow> Owner" where
  "otherFaction ow = (if ow = Player then AI else Player)"

text \<open>An event that is a frame or a Sun attack of the faction \<open>ow\<close>.\<close>

fun frame_or_attack_of :: "Owner \<Rightarrow> SunEvent \<Rightarrow> bool" where
  "frame_or_attack_of ow (Frame delta) = True"
| "frame_or_attack_of ow (SunAttack a now) = (a = ow)"

definition decrementTimer :: "GameStore \<Rightarrow> GameStore" where
  "decrementTimer st = st\<lparr>timer := max 0 (timer st - 1)\<rparr>"

definition incrementAttacks :: "GameStore \<Rightarrow> GameStore" where
  "incrementAttacks st = st\<lparr>attacksLaunched := attacksLaunched st + 1\<rparr>"

definition incrementConquests :: "GameStore \<Rightarrow> GameStore" where
  "incrementConquests st = st\<lparr>planetsConquered := planetsConquered st + 1\<rparr>"


section \<open>The Sun (entities/Sun.ts)\<close>

record Sun =
  sun_x :: real
  sun_y :: real
  hp :: int
  sun_owner :: "Owner option"
  isAttackable :: bool

definition new_Sun :: "real \<Rightarrow> real \<Rightarrow> Sun" where
  "new_Sun x y = \<lparr>sun_x = x, sun_y = y, hp = SUN_MAX_HP, sun_owner = None, isAttackable = False\<rparr>"

text \<open>
  \<^verbatim>\<open>Sun.takeDamage\<close> mutates the Sun object and, through \<^verbatim>\<open>damageSun\<close> and
  \<^verbatim>\<open>captureSun\<close>, the store; the model passes and returns both. The boolean is the
  method's result ("captured").
\<close>

definition takeDamage :: "Owner \<Rightarrow> Sun \<times> GameStore \<Rightarrow> bool \<times> Sun \<times> GameStore" where
  "takeDamage attacker = (\<lambda>(s, st).
     if hp s > 0 \<and> sun_owner s = None then
       (let s1 = s\<lparr>hp := hp s - 1\<rparr>;
            st1 = damageSun attacker st
        in if hp s1 = 0 then (True, s1\<lparr>sun_owner := Some attacker\<rparr>, captureSun attacker st1)
           else (False, s1, st1))
     else (False, s, st))"

definition setAttackable :: "bool \<Rightarrow> Sun \<Rightarrow> Sun" where
  "setAttackable canAttack s = s\<lparr>isAttackable := canAttack\<rparr>"

text \<open>\<^verbatim>\<open>Sun.update\<close> copies HP and owner from the store every frame.\<close>

definition Sun_update :: "GameStore \<Rightarrow> Sun \<Rightarrow> Sun" where
  "Sun_update st s = s\<lparr>hp := sunHP st, sun_owner := sunOwner st\<rparr>"

text \<open>A sequence of \<^verbatim>\<open>takeDamage\<close> calls, one per attacker, in order.\<close>

fun takeDamage_seq :: "Owner list \<Rightarrow> Sun \<times> GameStore \<Rightarrow> Sun \<times> GameStore" where
  "takeDamage_seq [] c = c"
| "takeDamage_seq (a # as) c = takeDamage_seq as (snd (takeDamage a c))"

text \<open>The state a match starts from: a new Sun and the store's initial Sun fields.\<close>

definition sun_start :: "real \<Rightarrow> real \<Rightarrow> Sun \<times> GameStore" where
  "sun_start x y = (new_Sun x y, store_init)"

text \<open>The invariant of the Sun and of its mirror in the store.\<close>

definition sun_inv :: "Sun \<times> GameStore \<Rightarrow> bool" where
  "sun_inv = (\<lambda>(s, st).
     0 \<le> hp s \<and> hp s \<le> SUN_MAX_HP \<and> sunHP st = hp s \<and> sunOwner st = sun_owner s \<and>
     ((hp s > 0) = (sun_owner s = None)))"


section \<open>Planets and defenses (entities/Planet.ts, entities/DefenseTriangle.ts)\<close>

record Point =
  pos_x :: real
  pos_y :: real

text \<open>
  A planet's \<^verbatim>\<open>defenseTriangle\<close> field is a reference to a DefenseTriangle object
  that other holders (the input manager's list) share; the model keeps the objects in a
  store indexed by \<open>nat\<close> and the field holds the index.
\<close>

record DefenseTriangle =
  def_owner :: Owner
  def_isActive :: bool

record Planet =
  planet_x :: real
  planet_y :: real
  p_owner :: Owner
  p_id :: nat
  p_type :: PlanetType
  ships :: int
  defenseTriangle :: "nat option"

definition getPosition :: "Planet \<Rightarrow> Point" where
  "getPosition p = \<lparr>pos_x = planet_x p, pos_y = planet_y p\<rparr>"

text \<open>\<^verbatim>\<open>typeConfig?.production || 1\<close>: a production of 0 would read as 1.\<close>

definition getProduction :: "Planet \<Rightarrow> int" where
  "getProduction p =
     (let typeConfig = PLANET_TYPES (p_type p)
      in if production typeConfig = 0 then 1 else production typeConfig)"

definition addShips :: "int \<Rightarrow> Planet \<Rightarrow> Planet" where
  "addShips amount p = p\<lparr>ships := ships p + amount\<rparr>"

definition removeShips :: "int \<Rightarrow> Planet \<Rightarrow> bool \<times> Planet" where
  "removeShips amount p =
     (if ships p \<ge> amount then (True, p\<lparr>ships := ships p - amount\<rparr>)
      else (False, p))"

definition setOwner :: "Owner \<Rightarrow> Planet \<Rightarrow> Planet" where
  "setOwner ow p = p\<lparr>p_owner := ow\<rparr>"

definition addDefense :: "nat \<Rightarrow> Planet \<Rightarrow> Planet" where
  "addDefense d p = p\<lparr>defenseTriangle := Some d\<rparr>"

definition hasDefense :: "(nat \<Rightarrow> DefenseTriangle) \<Rightarrow> Planet \<Rightarrow> bool" where
  "hasDefense defs p =
     (case defenseTriangle p of None \<Rightarrow> False | Some d \<Rightarrow> def_isActive (defs d))"

definition consume :: "DefenseTriangle \<Rightarrow> DefenseTriangle" where
  "consume d = d\<lparr>def_isActive := False\<rparr>"

definition consumeDefense ::
  "(nat \<Rightarrow> DefenseTriangle) \<times> Planet \<Rightarrow> (nat \<Rightarrow> DefenseTriangle) \<times> Planet" where
  "consumeDefense = (\<lambda>(defs, p).
     case defenseTriangle p of
       Some d \<Rightarrow> (defs(d := consume (defs d)), p\<lparr>defenseTriangle := None\<rparr>)
     | None \<Rightarrow> (defs, p))"


section \<open>The cost model (InputManager.calculateAttackCost, AISystem.calculateAttackCost)\<close>

text \<open>
  The two classes carry the same method, character for character; one definition models
  both. \<^verbatim>\<open>planetType?.attackCostModifier || 0\<close> is 0 when no source planet is given.
\<close>

definition calculateAttackCost :: "Point \<Rightarrow> Point \<Rightarrow> Planet option \<Rightarrow> int" where
  "calculateAttackCost sourcePos targetPos sourcePlanet =
     (let dx = pos_x targetPos - pos_x sourcePos;
          dy = pos_y targetPos - pos_y sourcePos;
          distance = sqrt (dx * dx + dy * dy);
          baseCost = ATTACK_COST_BASE;
          distanceCost = distance * ATTACK_COST_DISTANCE_MULTIPLIER;
          typeModifier =
            (case sourcePlanet of
               None \<Rightarrow> 0
             | Some p \<Rightarrow> attackCostModifier (PLANET_TYPES (p_type p)));
          totalCost = of_int baseCost + distanceCost + of_int typeModifier
      in max ATTACK_COST_MIN (min ATTACK_COST_MAX \<lfloor>totalCost\<rfloor>))"

text \<open>
  The specification's wording of the planet attack cost, to compare with the code:
  \<open>clamp(base + distance * distanceMultiplier + typeModifier, min, max)\<close>, read as an
  integer by rounding down, with the type modifiers the specification lists.
\<close>

definition clamp :: "real \<Rightarrow> real \<Rightarrow> real \<Rightarrow> real" where
  "clamp v lo hi = (if v < lo then lo else if hi < v then hi else v)"

fun spec_typeModifier :: "PlanetType \<Rightarrow> int" where
  "spec_typeModifier Generator = 2"
| "spec_typeModifier Fortress = - 1"
| "spec_typeModifier Launcher = 0"
| "spec_typeModifier Standard = 0"

definition euclid :: "Point \<Rightarrow> Point \<Rightarrow> real" where
  "euclid a b = sqrt ((pos_x b - pos_x a)\<^sup>2 + (pos_y b - pos_y a)\<^sup>2)"

definition spec_planet_cost :: "Point \<Rightarrow> Point \<Rightarrow> PlanetType \<Rightarrow> int" where
  "spec_planet_cost sourcePos targetPos ty =
     \<lfloor>clamp (of_int ATTACK_COST_BASE
              + euclid sourcePos targetPos * ATTACK_COST_DISTANCE_MULTIPLIER
              + of_int (spec_typeModifier ty))
        (of_int ATTACK_COST_MIN) (of_int ATTACK_COST_MAX)\<rfloor>"


section \<open>The object pools (utils/ObjectPool.ts, utils/ParticlePool.ts)\<close>

text \<open>
  A pool holds references to objects that live elsewhere; the model is generic in the
  reference type \<open>'a\<close> and in the object store \<open>'h\<close>. The \<^verbatim>\<open>factory\<close> allocates (it
  returns the new reference and the store with the new object in it) and \<^verbatim>\<open>reset\<close>
  mutates the object behind a reference. Both pool classes have the same two private
  arrays, so one record serves both.
\<close>

record 'a ObjectPool =
  pool :: "'a list"
  active :: "bool list"

text \<open>
  JavaScript array reads and writes on the flag array. A read past the end gives
  \<^verbatim>\<open>undefined\<close>, which is falsy; a write past the end extends the array, the holes
  reading as \<^verbatim>\<open>undefined\<close>.
\<close>

definition flag_at :: "bool list \<Rightarrow> nat \<Rightarrow> bool" where
  "flag_at xs i = (i < length xs \<and> xs ! i)"

definition js_assign :: "bool list \<Rightarrow> nat \<Rightarrow> bool \<Rightarrow> bool list" where
  "js_assign xs i v =
     (if i < length xs then xs[i := v] else xs @ replicate (i - length xs) False @ [v])"

text \<open>\<^verbatim>\<open>Array.prototype.indexOf\<close>: the first index, \<open>None\<close> for the source's \<open>-1\<close>.\<close>

fun indexOf :: "'a list \<Rightarrow> 'a \<Rightarrow> nat option" where
  "indexOf [] x = None"
| "indexOf (y # ys) x = (if y = x then Some 0 else map_option Suc (indexOf ys x))"

text \<open>The constructor's loop: \<open>sz\<close> times (the \<^verbatim>\<open>size\<close> argument), push a new object and the flag false.\<close>

fun preallocate :: "('h \<Rightarrow> 'a \<times> 'h) \<Rightarrow> nat \<Rightarrow> 'a ObjectPool \<times> 'h \<Rightarrow> 'a ObjectPool \<times> 'h" where
  "preallocate factory 0 c = c"
| "preallocate factory (Suc n) (P, h) =
     (let (obj, h') = factory h
      in preallocate factory n (P\<lparr>pool := pool P @ [obj], active := active P @ [False]\<rparr>, h'))"

definition new_ObjectPool :: "('h \<Rightarrow> 'a \<times> 'h) \<Rightarrow> nat \<Rightarrow> 'h \<Rightarrow> 'a ObjectPool \<times> 'h" where
  "new_ObjectPool factory sz h = preallocate factory sz (\<lparr>pool = [], active = []\<rparr>, h)"

text \<open>
  \<^verbatim>\<open>ObjectPool.acquire(): T | null\<close>. The scan \<^verbatim>\<open>for (i = 0; i < pool.length; i++)\<close>
  returning at the first \<^verbatim>\<open>!active[i]\<close> is \<open>find\<close> over the indices in order.
\<close>

definition acquire ::
  "('h \<Rightarrow> 'a \<times> 'h) \<Rightarrow> 'a ObjectPool \<times> 'h \<Rightarrow> 'a option \<times> 'a ObjectPool \<times> 'h" where
  "acquire factory = (\<lambda>(P, h).
     case find (\<lambda>i. \<not> flag_at (active P) i) [0..<length (pool P)] of
       Some i \<Rightarrow> (Some (pool P ! i), P\<lparr>active := js_assign (active P) i True\<rparr>, h)
     | None \<Rightarrow>
         (let (newObj, h') = factory h
          in (Some newObj, P\<lparr>pool := pool P @ [newObj], active := active P @ [True]\<rparr>, h')))"

definition release ::
  "('a \<Rightarrow> 'h \<Rightarrow> 'h) \<Rightarrow> 'a \<Rightarrow> 'a ObjectPool \<times> 'h \<Rightarrow> 'a ObjectPool \<times> 'h" where
  "release reset obj = (\<lambda>(P, h).
     case indexOf (pool P) obj of
       None \<Rightarrow> (P, h)
     | Some index \<Rightarrow>
         if \<not> flag_at (active P) index then (P, h)
         else (P\<lparr>active := js_assign (active P) index False\<rparr>, reset obj h))"

definition getActiveCount :: "'a ObjectPool \<Rightarrow> nat" where
  "getActiveCount P = length (filter (\<lambda>b. b) (active P))"

definition getSize :: "'a ObjectPool \<Rightarrow> nat" where
  "getSize P = length (pool P)"

text \<open>The two arrays have the same length: the constructor and every method keep it so.\<close>

definition pool_wf :: "'a ObjectPool \<Rightarrow> bool" where
  "pool_wf P = (length (active P) = length (pool P))"

text \<open>
  The particle pool holds PIXI.Graphics objects; the model keeps of a particle what the
  pool touches: visibility, alpha, whether anything is drawn on it, whether it is
  attached to a parent.
\<close>

record Particle =
  visible :: bool
  alpha :: real
  drawn :: bool
  attached :: bool

definition ParticlePool_acquire ::
  "nat ObjectPool \<times> (nat \<Rightarrow> Particle) \<Rightarrow> nat option \<times> nat ObjectPool \<times> (nat \<Rightarrow> Particle)" where
  "ParticlePool_acquire = (\<lambda>(P, h).
     case find (\<lambda>i. \<not> flag_at (active P) i) [0..<length (pool P)] of
       Some i \<Rightarrow>
         (let particle = pool P ! i
          in (Some particle, P\<lparr>active := js_assign (active P) i True\<rparr>,
              h(particle := (h particle)\<lparr>visible := True, alpha := 1, drawn := False\<rparr>)))
     | None \<Rightarrow> (None, P, h))"

definition ParticlePool_release ::
  "nat \<Rightarrow> nat ObjectPool \<times> (nat \<Rightarrow> Particle) \<Rightarrow> nat ObjectPool \<times> (nat \<Rightarrow> Particle)" where
  "ParticlePool_release particle = (\<lambda>(P, h).
     case indexOf (pool P) particle of
       None \<Rightarrow> (P, h)
     | Some index \<Rightarrow>
         if \<not> flag_at (active P) index then (P, h)
         else (P\<lparr>active := js_assign (active P) index False\<rparr>,
               h(particle := (h particle)\<lparr>visible := False, alpha := 0, drawn := False,
                                           attached := False\<rparr>)))"


section \<open>Win and loss (systems/GameManager.ts)\<close>

datatype DefeatReason = AiWon | TimerExpired

datatype EndScreen = Victory | Defeat DefeatReason

text \<open>
  Of the end screen the model keeps which one is shown: \<^verbatim>\<open>showEndScreen(isVictory,
  defeatReason)\<close> builds the victory screen or the defeat screen for that reason.
\<close>

record GameManager =
  gameOver :: bool
  endScreen :: "EndScreen option"

definition showEndScreen :: "bool \<Rightarrow> DefeatReason \<Rightarrow> GameManager \<Rightarrow> GameManager" where
  "showEndScreen isVictory defeatReason gm =
     gm\<lparr>endScreen := Some (if isVictory then Victory else Defeat defeatReason)\<rparr>"

definition showDefeat :: "DefeatReason \<Rightarrow> GameManager \<Rightarrow> GameManager" where
  "showDefeat reason gm = showEndScreen False reason (gm\<lparr>gameOver := True\<rparr>)"

text \<open>\<^verbatim>\<open>showVictory\<close> passes no reason; the victory screen does not read it.\<close>

definition showVictory :: "GameManager \<Rightarrow> GameManager" where
  "showVictory gm = showEndScreen True TimerExpired (gm\<lparr>gameOver := True\<rparr>)"

definition checkWinCondition ::
  "Planet list \<Rightarrow> GameManager \<times> GameStore \<Rightarrow> bool \<times> GameManager \<times> GameStore" where
  "checkWinCondition planets = (\<lambda>(gm, state).
     if gameOver gm then (True, gm, state)
     else if sunOwner state = Some Player then
       (let state' =
              (case timeAttackMode state of
                 Some m \<Rightarrow>
                   if gameMode state = TimeAttack
                   then state\<lparr>captureTime := TIME_ATTACK_MODES m - timer state\<rparr>
                   else state
               | None \<Rightarrow> state)
        in (True, showVictory gm, state'))
     else if sunOwner state = Some AI then (True, showDefeat AiWon gm, state)
     else if timer state \<le> 0 then
       (let playerPlanets = length (filter (\<lambda>p. p_owner p = Player) planets);
            aiPlanets = length (filter (\<lambda>p. p_owner p = AI) planets)
        in if playerPlanets > aiPlanets then (True, showVictory gm, state)
           else (True, showDefeat TimerExpired gm, state))
     else (False, gm, state))"


section \<open>The Sun-attack gate (InputManager.update)\<close>

text \<open>
  The part of \<^verbatim>\<open>InputManager.update\<close> that sets the Sun's attackable flag, once per
  frame. \<^verbatim>\<open>handleSunClick\<close> and \<^verbatim>\<open>AISystem.makeDecision\<close> obtain the threshold by the
  same call, \<^verbatim>\<open>getMajorityThreshold(state.gameMode)\<close>.
\<close>

definition InputManager_update_sun :: "Planet list \<Rightarrow> GameStore \<Rightarrow> Sun \<Rightarrow> Sun" where
  "InputManager_update_sun planets gameState s =
     (let playerPlanets = filter (\<lambda>p. p_owner p = Player) planets;
          majorityThreshold = getMajorityThreshold (Some (gameMode gameState));
          canAttackSun = (int (length playerPlanets) \<ge> majorityThreshold)
      in setAttackable canAttackSun s)"


section \<open>Projectiles (entities/Triangle.ts)\<close>

text \<open>
  Of a Triangle the model keeps the simulation state: the position of its container, the
  target, speeds, owner, the reached flag, distances, the pool flag, and whether its
  container has been destroyed. The graphics, trail and rotation are presentation.
\<close>

record Triangle =
  tri_x :: real
  tri_y :: real
  targetX :: real
  targetY :: real
  baseSpeed :: real
  speedMultiplier :: real
  tri_owner :: Owner
  hasReached :: bool
  totalDistanceSquared :: real
  traveledDistance :: real
  isRageMode :: bool
  tri_active :: bool
  destroyed :: bool

definition new_Triangle :: Triangle where
  "new_Triangle =
     \<lparr>tri_x = 0, tri_y = 0, targetX = 0, targetY = 0, baseSpeed = TRIANGLE_BASE_SPEED,
      speedMultiplier = 1, tri_owner = Player, hasReached = False, totalDistanceSquared = 0,
      traveledDistance = 0, isRageMode = False, tri_active = False, destroyed = False\<rparr>"

definition Triangle_init ::
  "real \<Rightarrow> real \<Rightarrow> real \<Rightarrow> real \<Rightarrow> Owner \<Rightarrow> real \<Rightarrow> Triangle \<Rightarrow> Triangle" where
  "Triangle_init startX startY tX tY ow mult t =
     (let dx = tX - startX;
          dy = tY - startY
      in t\<lparr>targetX := tX, targetY := tY, tri_owner := ow, speedMultiplier := mult,
            isRageMode := (mult > 1), hasReached := False, traveledDistance := 0,
            tri_active := True, totalDistanceSquared := dx * dx + dy * dy,
            tri_x := startX, tri_y := startY\<rparr>)"

definition Triangle_reset :: "Triangle \<Rightarrow> Triangle" where
  "Triangle_reset t = t\<lparr>tri_active := False, hasReached := True\<rparr>"

definition Triangle_update :: "real \<Rightarrow> Triangle \<Rightarrow> Triangle" where
  "Triangle_update delta t =
     (if hasReached t \<or> \<not> tri_active t then t
      else
        (let dx = targetX t - tri_x t;
             dy = targetY t - tri_y t;
             distanceSquared = dx * dx + dy * dy;
             arrivalThresholdSquared = 25
         in if distanceSquared < arrivalThresholdSquared then t\<lparr>hasReached := True\<rparr>
            else
              (let distance = sqrt distanceSquared;
                   speed = baseSpeed t * speedMultiplier t;
                   totalDistance = sqrt (totalDistanceSquared t);
                   progress = traveledDistance t / totalDistance;
                   easedSpeed = speed * (1 - progress * (3 / 10));
                   moveDistance = easedSpeed * delta / 60;
                   ratio = moveDistance / distance
               in t\<lparr>tri_x := tri_x t + dx * ratio,
                     tri_y := tri_y t + dy * ratio,
                     traveledDistance := traveledDistance t + moveDistance\<rparr>)))"


section \<open>The running game (main.ts and the systems it wires together)\<close>

text \<open>
  The module-level variables of main.ts and the private state of the systems they hold.
  Planets are referred to by their index in the planets array, which never changes after
  generation; triangles and defense triangles by their index in an object store, with a
  counter for the next allocation. The three systems receive the same pool object, so the
  world has one; the field is nullable in the classes and stays optional here. Their
  nullable \<^verbatim>\<open>sun\<close> fields always hold the one Sun that \<^verbatim>\<open>initGame\<close> creates before
  it constructs them, so the world has a Sun and the \<^verbatim>\<open>if (!this.sun)\<close> guards have no
  branch. \<open>pendingOwner\<close> holds the \<^verbatim>\<open>setOwner\<close> callbacks that a conquest
  hands to the colour animation, which calls them when it ends (0.3 seconds later, from
  an animation frame); \<open>planetLostAlerts\<close> counts the "planet lost" callback's calls;
  \<open>shaking\<close> holds the shake animations that are running on planets.
\<close>

text \<open>
  A running \<^verbatim>\<open>AnimationHelper.shake\<close> on a planet's container: the planet, the
  position the container had when the shake began (its closure's \<^verbatim>\<open>originalX\<close>,
  \<^verbatim>\<open>originalY\<close>) and the intensity.
\<close>

record ShakeAnimation =
  sh_planet :: nat
  originalX :: real
  originalY :: real
  intensity :: real

record World =
  planets :: "Planet list"
  defenses :: "nat \<Rightarrow> DefenseTriangle"
  nextDefense :: nat
  sun :: Sun
  store :: GameStore
  triangles :: "nat \<Rightarrow> Triangle"
  nextTriangle :: nat
  trianglePool :: "nat ObjectPool option"
  playerTriangles :: "nat list"
  aiTriangles :: "nat list"
  inputDefenses :: "nat list"
  decisionTimer :: real
  accumulator :: real
  gameManager :: GameManager
  planetLostAlerts :: nat
  pendingOwner :: "(nat \<times> Owner) list"
  shaking :: "ShakeAnimation list"

text \<open>
  The pool's factory \<^verbatim>\<open>() => new Triangle()\<close> and reset \<^verbatim>\<open>(triangle) =>
  triangle.reset()\<close>, on the triangle store with its allocation counter.
\<close>

definition Triangle_factory :: "(nat \<Rightarrow> Triangle) \<times> nat \<Rightarrow> nat \<times> (nat \<Rightarrow> Triangle) \<times> nat" where
  "Triangle_factory = (\<lambda>(h, n). (n, h(n := new_Triangle), Suc n))"

definition pool_reset :: "nat \<Rightarrow> (nat \<Rightarrow> Triangle) \<times> nat \<Rightarrow> (nat \<Rightarrow> Triangle) \<times> nat" where
  "pool_reset r = (\<lambda>(h, n). (h(r := Triangle_reset (h r)), n))"

text \<open>\<^verbatim>\<open>this.trianglePool ? this.trianglePool.acquire() : null\<close>\<close>

definition acquireTriangle :: "World \<Rightarrow> nat option \<times> World" where
  "acquireTriangle w =
     (case trianglePool w of
        None \<Rightarrow> (None, w)
      | Some P \<Rightarrow>
          (let (r, P', h', n') = acquire Triangle_factory (P, triangles w, nextTriangle w)
           in (r, w\<lparr>trianglePool := Some P', triangles := h', nextTriangle := n'\<rparr>)))"

text \<open>
  \<^verbatim>\<open>if (this.trianglePool) this.trianglePool.release(triangle); else
  container.destroy()\<close>
\<close>

definition releaseTriangle :: "nat \<Rightarrow> World \<Rightarrow> World" where
  "releaseTriangle tr w =
     (case trianglePool w of
        Some P \<Rightarrow>
          (let (P', h', n') = release pool_reset tr (P, triangles w, nextTriangle w)
           in w\<lparr>trianglePool := Some P', triangles := h', nextTriangle := n'\<rparr>)
      | None \<Rightarrow> w\<lparr>triangles := (triangles w)(tr := (triangles w tr)\<lparr>destroyed := True\<rparr>)\<rparr>)"

text \<open>\<^verbatim>\<open>launcherConfig.speedBonus || 1\<close> for a launcher, 1 for the other types.\<close>

definition launchSpeed :: "Planet \<Rightarrow> real" where
  "launchSpeed source =
     (if p_type source = Launcher then
        (case speedBonus (PLANET_TYPES Launcher) of
           Some b \<Rightarrow> if b = 0 then 1 else b
         | None \<Rightarrow> 1)
      else 1)"


subsection \<open>The shake of a refused request (AnimationHelper.shake)\<close>

text \<open>
  The shake writes the position of the planet's container, which \<^verbatim>\<open>getPosition\<close>
  reads, so it is part of the model. Its inner \<^verbatim>\<open>shake()\<close> puts the container at the
  original position plus \<open>(Math.random() - 0.5) * intensity\<close> on each axis; \<open>r1\<close> and
  \<open>r2\<close> are the two random draws.
\<close>

definition jitter :: "ShakeAnimation \<Rightarrow> real \<Rightarrow> real \<Rightarrow> World \<Rightarrow> World" where
  "jitter a r1 r2 w =
     (let offsetX = (r1 - 1 / 2) * intensity a;
          offsetY = (r2 - 1 / 2) * intensity a;
          target = planets w ! sh_planet a
      in w\<lparr>planets := (planets w)
             [sh_planet a := target\<lparr>planet_x := originalX a + offsetX,
                                      planet_y := originalY a + offsetY\<rparr>]\<rparr>)"

text \<open>
  The call \<^verbatim>\<open>AnimationHelper.shake(container, intensity, 0.3)\<close>. It remembers the
  position and runs the animation's first step before it returns; the clock is read twice
  within the call, so the elapsed time of that step is below the duration and the step
  moves the container. The later steps run from animation frames.
\<close>

definition shake :: "nat \<Rightarrow> real \<Rightarrow> real \<Rightarrow> real \<Rightarrow> World \<Rightarrow> World" where
  "shake i intens r1 r2 w =
     (let a = \<lparr>sh_planet = i, originalX = planet_x (planets w ! i),
                 originalY = planet_y (planets w ! i), intensity = intens\<rparr>
      in jitter a r1 r2 (w\<lparr>shaking := shaking w @ [a]\<rparr>))"

text \<open>
  A later step of the running shake number \<open>k\<close>: while the duration has not passed it
  moves the container again; once it has, it puts the container back where it was and the
  animation is over.
\<close>

definition shakeFrame :: "nat \<Rightarrow> real \<Rightarrow> real \<Rightarrow> World \<Rightarrow> World" where
  "shakeFrame k r1 r2 w = (if k < length (shaking w) then jitter (shaking w ! k) r1 r2 w else w)"

definition shakeEnd :: "nat \<Rightarrow> World \<Rightarrow> World" where
  "shakeEnd k w =
     (if k < length (shaking w) then
        (let a = shaking w ! k;
             target = planets w ! sh_planet a
         in w\<lparr>planets := (planets w)
                [sh_planet a := target\<lparr>planet_x := originalX a, planet_y := originalY a\<rparr>],
              shaking := take k (shaking w) @ drop (Suc k) (shaking w)\<rparr>)
      else w)"


subsection \<open>Player requests (systems/InputManager.ts)\<close>

text \<open>
  A request that is refused for want of ships shakes the source planet; \<open>r1\<close> and
  \<open>r2\<close> are the random draws of that shake and are not read otherwise.
\<close>

definition attack :: "nat \<Rightarrow> nat \<Rightarrow> real \<Rightarrow> real \<Rightarrow> World \<Rightarrow> bool \<times> World" where
  "attack src tgt r1 r2 w =
     (let source = planets w ! src;
          target = planets w ! tgt;
          sourcePos = getPosition source;
          targetPos = getPosition target;
          attackCost = calculateAttackCost sourcePos targetPos (Some source)
      in if ships source < attackCost then (False, shake src 5 r1 r2 w)
         else
           (let speedMult = launchSpeed source;
                w1 = w\<lparr>planets := (planets w)[src := snd (removeShips attackCost source)]\<rparr>
            in case acquireTriangle w1 of
                 (None, w2) \<Rightarrow> (False, w2)
               | (Some tr, w2) \<Rightarrow>
                   (True,
                    w2\<lparr>triangles := (triangles w2)
                          (tr := Triangle_init (pos_x sourcePos) (pos_y sourcePos)
                                   (pos_x targetPos) (pos_y targetPos) Player speedMult
                                   (triangles w2 tr)),
                       playerTriangles := playerTriangles w2 @ [tr],
                       store := incrementAttacks (store w2)\<rparr>)))"

text \<open>The argument \<open>now\<close> is the clock reading \<^verbatim>\<open>registerSunAttack\<close> takes.\<close>

definition attackSun :: "nat \<Rightarrow> real \<Rightarrow> World \<Rightarrow> bool \<times> World" where
  "attackSun src now w =
     (let source = planets w ! src;
          attackCost = getSunAttackCost (store w)
      in if ships source < attackCost then (False, w)
         else
           (let w1 = w\<lparr>store := registerSunAttack Player now (store w)\<rparr>;
                w2 = w1\<lparr>planets := (planets w1)[src := snd (removeShips attackCost source)]\<rparr>;
                sourcePos = getPosition source
            in case acquireTriangle w2 of
                 (None, w3) \<Rightarrow> (False, w3)
               | (Some tr, w3) \<Rightarrow>
                   (True,
                    w3\<lparr>triangles := (triangles w3)
                          (tr := Triangle_init (pos_x sourcePos) (pos_y sourcePos)
                                   (sun_x (sun w3)) (sun_y (sun w3)) Player 1
                                   (triangles w3 tr)),
                       playerTriangles := playerTriangles w3 @ [tr],
                       store := incrementAttacks (store w3)\<rparr>)))"

definition defendPlanet :: "nat \<Rightarrow> real \<Rightarrow> real \<Rightarrow> World \<Rightarrow> World" where
  "defendPlanet i r1 r2 w =
     (let planet = planets w ! i;
          defenseCost = ATTACK_COST_BASE
      in if ships planet < defenseCost then shake i 5 r1 r2 w
         else if hasDefense (defenses w) planet then w
         else
           (let d = nextDefense w;
                planet1 = snd (removeShips defenseCost planet)
            in w\<lparr>planets := (planets w)[i := addDefense d planet1],
                 defenses := (defenses w)(d := \<lparr>def_owner = Player, def_isActive = True\<rparr>),
                 nextDefense := Suc d,
                 inputDefenses := inputDefenses w @ [d]\<rparr>))"


subsection \<open>AI actions (systems/AISystem.ts)\<close>

definition AI_defendPlanet :: "nat \<Rightarrow> World \<Rightarrow> World" where
  "AI_defendPlanet i w =
     (let planet = planets w ! i
      in if hasDefense (defenses w) planet \<or> ships planet < ATTACK_COST_BASE then w
         else
           (let d = nextDefense w;
                planet1 = snd (removeShips ATTACK_COST_BASE planet)
            in w\<lparr>planets := (planets w)[i := addDefense d planet1],
                 defenses := (defenses w)(d := \<lparr>def_owner = AI, def_isActive = True\<rparr>),
                 nextDefense := Suc d\<rparr>))"

definition AI_attackSun :: "nat \<Rightarrow> real \<Rightarrow> World \<Rightarrow> World" where
  "AI_attackSun src now w =
     (let source = planets w ! src
      in if \<not> canAttackSun AI (store w) then w
         else
           (let attackCost = getSunAttackCost (store w)
            in if ships source < attackCost then w
               else
                 (let w1 = w\<lparr>store := registerSunAttack AI now (store w)\<rparr>;
                      w2 = w1\<lparr>planets := (planets w1)[src := snd (removeShips attackCost source)]\<rparr>;
                      sourcePos = getPosition source;
                      speedMult = launchSpeed source
                  in case acquireTriangle w2 of
                       (None, w3) \<Rightarrow> w3
                     | (Some tr, w3) \<Rightarrow>
                         w3\<lparr>triangles := (triangles w3)
                               (tr := Triangle_init (pos_x sourcePos) (pos_y sourcePos)
                                        (sun_x (sun w3)) (sun_y (sun w3)) AI speedMult
                                        (triangles w3 tr)),
                            aiTriangles := aiTriangles w3 @ [tr],
                            store := incrementAttacks (store w3)\<rparr>)))"

definition AI_attackPlanet :: "nat \<Rightarrow> nat \<Rightarrow> World \<Rightarrow> World" where
  "AI_attackPlanet src tgt w =
     (let source = planets w ! src;
          target = planets w ! tgt;
          sourcePos = getPosition source;
          targetPos = getPosition target;
          attackCost = calculateAttackCost sourcePos targetPos (Some source)
      in if ships source < attackCost then w
         else
           (let w1 = w\<lparr>planets := (planets w)[src := snd (removeShips attackCost source)]\<rparr>;
                speedMult = launchSpeed source
            in case acquireTriangle w1 of
                 (None, w2) \<Rightarrow> w2
               | (Some tr, w2) \<Rightarrow>
                   w2\<lparr>triangles := (triangles w2)
                         (tr := Triangle_init (pos_x sourcePos) (pos_y sourcePos)
                                  (pos_x targetPos) (pos_y targetPos) AI speedMult
                                  (triangles w2 tr)),
                      aiTriangles := aiTriangles w2 @ [tr],
                      store := incrementAttacks (store w2)\<rparr>))"


subsection \<open>Sequences of requests\<close>

text \<open>
  The attack and defend requests of both factions. The methods take planet objects of
  the planets array, so a request names planets by index; a request naming an index
  outside the array has no counterpart in the program and is ignored. The player's attack
  and defend requests carry the random draws of the shake that a refusal starts, a Sun
  attack the clock reading.
\<close>

datatype Request =
    PlayerAttack nat nat real real
  | PlayerAttackSun nat real
  | PlayerDefend nat real real
  | AIAttackPlanet nat nat
  | AIAttackSun nat real
  | AIDefend nat

fun apply_request :: "Request \<Rightarrow> World \<Rightarrow> World" where
  "apply_request (PlayerAttack src tgt r1 r2) w =
     (if src < length (planets w) \<and> tgt < length (planets w)
      then snd (attack src tgt r1 r2 w) else w)"
| "apply_request (PlayerAttackSun src now) w =
     (if src < length (planets w) then snd (attackSun src now w) else w)"
| "apply_request (PlayerDefend i r1 r2) w =
     (if i < length (planets w) then defendPlanet i r1 r2 w else w)"
| "apply_request (AIAttackPlanet src tgt) w =
     (if src < length (planets w) \<and> tgt < length (planets w) then AI_attackPlanet src tgt w else w)"
| "apply_request (AIAttackSun src now) w =
     (if src < length (planets w) then AI_attackSun src now w else w)"
| "apply_request (AIDefend i) w =
     (if i < length (planets w) then AI_defendPlanet i w else w)"

fun apply_requests :: "Request list \<Rightarrow> World \<Rightarrow> World" where
  "apply_requests [] w = w"
| "apply_requests (r # rs) w = apply_requests rs (apply_request r w)"

definition ships_nonneg :: "World \<Rightarrow> bool" where
  "ships_nonneg w = (\<forall>p \<in> set (planets w). 0 \<le> ships p)"


text \<open>
  What a request may do to the planets array: nothing, or replace the source planet by
  itself with ships removed (and, for a defense, with the defense attached), or by itself
  moved (the shake of a refused request).
\<close>

definition deducts :: "nat \<Rightarrow> World \<Rightarrow> World \<Rightarrow> bool" where
  "deducts i w w' =
     (planets w' = planets w
      \<or> (\<exists>a. planets w' = (planets w)[i := snd (removeShips a (planets w ! i))])
      \<or> (\<exists>a d. planets w' = (planets w)[i := addDefense d (snd (removeShips a (planets w ! i)))])
      \<or> (\<exists>x y. planets w' = (planets w)[i := (planets w ! i)\<lparr>planet_x := x, planet_y := y\<rparr>]))"


subsection \<open>Combat (systems/CombatSystem.ts)\<close>

definition checkSunHit :: "Triangle \<Rightarrow> World \<Rightarrow> bool" where
  "checkSunHit triangle w =
     (if sun_owner (sun w) \<noteq> None then False
      else
        (let dx = sun_x (sun w) - tri_x triangle;
             dy = sun_y (sun w) - tri_y triangle;
             distanceSquared = dx * dx + dy * dy;
             thresholdSquared = SUN_HIT_THRESHOLD * SUN_HIT_THRESHOLD
         in distanceSquared < thresholdSquared))"

definition resolveSunAttack :: "Triangle \<Rightarrow> World \<Rightarrow> World" where
  "resolveSunAttack triangle w =
     (let attacker = tri_owner triangle;
          (captured, s', st') = takeDamage attacker (sun w, store w)
      in w\<lparr>sun := s', store := st'\<rparr>)"

text \<open>
  The \<^verbatim>\<open>forEach\<close> that finds the closest planet. The accumulator \<open>None\<close> is the
  initial \<^verbatim>\<open>closestPlanet = null, minDistanceSquared = Infinity\<close>; a planet replaces
  the current one only when strictly closer, so the first of equally close planets stays.
\<close>

fun closest_loop ::
  "Triangle \<Rightarrow> Planet list \<Rightarrow> nat \<Rightarrow> (nat \<times> real) option \<Rightarrow> (nat \<times> real) option" where
  "closest_loop triangle [] i best = best"
| "closest_loop triangle (planet # rest) i best =
     (let dx = planet_x planet - tri_x triangle;
          dy = planet_y planet - tri_y triangle;
          distanceSquared = dx * dx + dy * dy
      in closest_loop triangle rest (Suc i)
           (case best of
              None \<Rightarrow> Some (i, distanceSquared)
            | Some (closestPlanet, minDistanceSquared) \<Rightarrow>
                if distanceSquared < minDistanceSquared then Some (i, distanceSquared)
                else Some (closestPlanet, minDistanceSquared)))"

definition resolveAttack :: "Triangle \<Rightarrow> World \<Rightarrow> World" where
  "resolveAttack triangle w =
     (let thresholdSquared = 50 * 50
      in case closest_loop triangle (planets w) 0 None of
           None \<Rightarrow> w
         | Some (i, minDistanceSquared) \<Rightarrow>
             if minDistanceSquared < thresholdSquared then
               (let targetPlanet = planets w ! i;
                    oldOwner = p_owner targetPlanet;
                    newOwner = tri_owner triangle
                in if oldOwner = newOwner then w
                   else if hasDefense (defenses w) targetPlanet \<and> oldOwner \<noteq> Neutral then
                     (let (defs', planet') = consumeDefense (defenses w, targetPlanet)
                      in w\<lparr>defenses := defs', planets := (planets w)[i := planet']\<rparr>)
                   else
                     (let w1 = w\<lparr>pendingOwner := pendingOwner w @ [(i, newOwner)]\<rparr>;
                          w2 = (if newOwner = Player
                                then w1\<lparr>store := incrementConquests (store w1)\<rparr> else w1)
                      in if oldOwner = Player
                         then w2\<lparr>planetLostAlerts := planetLostAlerts w2 + 1\<rparr> else w2))
             else w)"

text \<open>The colour animation ends: the oldest waiting callback sets the planet's owner.\<close>

definition completeColorTransition :: "World \<Rightarrow> World" where
  "completeColorTransition w =
     (case pendingOwner w of
        [] \<Rightarrow> w
      | (i, newOwner) # rest \<Rightarrow>
          w\<lparr>planets := (planets w)[i := setOwner newOwner (planets w ! i)],
            pendingOwner := rest\<rparr>)"

text \<open>
  The two live-projectile lists: \<^verbatim>\<open>InputManager.triangles\<close> and
  \<^verbatim>\<open>AISystem.triangles\<close>. The game loop and the combat system run the same loop body
  over the one, then over the other.
\<close>

datatype Side = PlayerSide | AISide

definition getTriangles :: "Side \<Rightarrow> World \<Rightarrow> nat list" where
  "getTriangles side w = (if side = PlayerSide then playerTriangles w else aiTriangles w)"

definition setTriangles :: "Side \<Rightarrow> nat list \<Rightarrow> World \<Rightarrow> World" where
  "setTriangles side l w =
     (if side = PlayerSide then w\<lparr>playerTriangles := l\<rparr> else w\<lparr>aiTriangles := l\<rparr>)"

text \<open>\<^verbatim>\<open>array.splice(i, 1)\<close>\<close>

definition splice1 :: "nat \<Rightarrow> 'a list \<Rightarrow> 'a list" where
  "splice1 i l = take i l @ drop (Suc i) l"

text \<open>
  The loops \<^verbatim>\<open>for (let i = list.length - 1; i >= 0; i--)\<close>: the counter of the model
  is \<open>i + 1\<close>, so a loop starts at the list's length and stops at 0.
\<close>

fun combat_loop :: "Side \<Rightarrow> nat \<Rightarrow> World \<Rightarrow> World" where
  "combat_loop side 0 w = w"
| "combat_loop side (Suc i) w =
     (let tr = getTriangles side w ! i;
          triangle = triangles w tr
      in if hasReached triangle then
           (let w1 = (if checkSunHit triangle w then resolveSunAttack triangle w
                      else resolveAttack triangle w);
                w2 = releaseTriangle tr w1;
                w3 = setTriangles side (splice1 i (getTriangles side w2)) w2
            in combat_loop side i w3)
         else combat_loop side i w)"

definition CombatSystem_update :: "World \<Rightarrow> World" where
  "CombatSystem_update w =
     (let w1 = combat_loop PlayerSide (length (playerTriangles w)) w
      in combat_loop AISide (length (aiTriangles w1)) w1)"


subsection \<open>The AI's frame (AISystem.update)\<close>

fun AI_triangle_loop :: "real \<Rightarrow> nat \<Rightarrow> World \<Rightarrow> World" where
  "AI_triangle_loop delta 0 w = w"
| "AI_triangle_loop delta (Suc i) w =
     (let tr = aiTriangles w ! i;
          w1 = w\<lparr>triangles := (triangles w)(tr := Triangle_update delta (triangles w tr))\<rparr>
      in if hasReached (triangles w1 tr)
         then AI_triangle_loop delta i (w1\<lparr>aiTriangles := splice1 i (aiTriangles w1)\<rparr>)
         else AI_triangle_loop delta i w1)"

text \<open>
  \<^verbatim>\<open>makeDecision\<close> draws random numbers and chooses among the AI actions above; it is
  the parameter \<open>decide\<close>.
\<close>

definition AISystem_update :: "(World \<Rightarrow> World) \<Rightarrow> real \<Rightarrow> World \<Rightarrow> World" where
  "AISystem_update decide delta w =
     (let w1 = w\<lparr>decisionTimer := decisionTimer w + delta\<rparr>;
          w2 = (if decisionTimer w1 \<ge> 60 then decide (w1\<lparr>decisionTimer := 0\<rparr>) else w1)
      in AI_triangle_loop delta (length (aiTriangles w2)) w2)"


subsection \<open>The game loop (main.ts)\<close>

fun updateTriangles_loop :: "Side \<Rightarrow> real \<Rightarrow> nat \<Rightarrow> World \<Rightarrow> World" where
  "updateTriangles_loop side delta 0 w = w"
| "updateTriangles_loop side delta (Suc i) w =
     (let tr = getTriangles side w ! i;
          triangle = triangles w tr
      in if destroyed triangle
         then updateTriangles_loop side delta i
                (setTriangles side (splice1 i (getTriangles side w)) w)
         else if hasReached triangle then updateTriangles_loop side delta i w
         else updateTriangles_loop side delta i
                (w\<lparr>triangles := (triangles w)(tr := Triangle_update delta triangle)\<rparr>))"

definition updateTriangles :: "Side \<Rightarrow> real \<Rightarrow> World \<Rightarrow> World" where
  "updateTriangles side delta w =
     updateTriangles_loop side delta (length (getTriangles side w)) w"

fun cleanup_loop :: "Side \<Rightarrow> nat \<Rightarrow> World \<Rightarrow> World" where
  "cleanup_loop side 0 w = w"
| "cleanup_loop side (Suc i) w =
     (let tr = getTriangles side w ! i
      in if hasReached (triangles w tr) then
           (let w1 = releaseTriangle tr w
            in cleanup_loop side i (setTriangles side (splice1 i (getTriangles side w1)) w1))
         else cleanup_loop side i w)"

definition cleanupReachedTriangles :: "Side \<Rightarrow> World \<Rightarrow> World" where
  "cleanupReachedTriangles side w = cleanup_loop side (length (getTriangles side w)) w"

definition ProductionSystem_update :: "real \<Rightarrow> World \<Rightarrow> World" where
  "ProductionSystem_update delta w =
     (let w1 = w\<lparr>accumulator := accumulator w + delta\<rparr>
      in if accumulator w1 \<ge> 60 then
           w1\<lparr>accumulator := accumulator w1 - 60,
              planets := map (\<lambda>planet. if p_owner planet \<noteq> Neutral
                                        then addShips (getProduction planet) planet
                                        else planet) (planets w1)\<rparr>
         else w1)"

text \<open>
  \<^verbatim>\<open>InputManager.update\<close>: the Sun's attackable flag, and the removal of consumed
  defenses from the input manager's list. The target indicators it redraws for a selected
  planet are presentation.
\<close>

definition InputManager_update :: "World \<Rightarrow> World" where
  "InputManager_update w =
     w\<lparr>sun := InputManager_update_sun (planets w) (store w) (sun w),
       inputDefenses := filter (\<lambda>d. def_isActive (defenses w d)) (inputDefenses w)\<rparr>"

text \<open>
  One frame of the ticker callback while the game is playing, in the source's order. The
  calls that only draw (UI, effects, \<^verbatim>\<open>planet.update\<close>, \<^verbatim>\<open>updateDefenses\<close>) are left
  out.
\<close>

definition gameLoop :: "(World \<Rightarrow> World) \<Rightarrow> real \<Rightarrow> World \<Rightarrow> World" where
  "gameLoop decide delta w =
     (let (over, gm', st') = checkWinCondition (planets w) (gameManager w, store w);
          w0 = w\<lparr>gameManager := gm', store := st'\<rparr>
      in if over then w0
         else
           (let w1 = w0\<lparr>sun := Sun_update (store w0) (sun w0)\<rparr>;
                w2 = ProductionSystem_update delta w1;
                w3 = w2\<lparr>store := updateSunCooldown delta (store w2)\<rparr>;
                w4 = AISystem_update decide delta w3;
                w5 = InputManager_update w4;
                w6 = updateTriangles PlayerSide delta w5;
                w7 = updateTriangles AISide delta w6;
                w8 = CombatSystem_update w7;
                w9 = cleanupReachedTriangles PlayerSide w8
            in cleanupReachedTriangles AISide w9))"


subsection \<open>A small world for examples\<close>

text \<open>
  A world with the given planets and nothing in flight: the Sun far away at (1000, 1000),
  the store in its initial state, an empty pool.
\<close>

definition world_of :: "Planet list \<Rightarrow> World" where
  "world_of ps =
     \<lparr>planets = ps, defenses = (\<lambda>d. \<lparr>def_owner = Neutral, def_isActive = False\<rparr>),
      nextDefense = 0, sun = new_Sun 1000 1000, store = store_init,
      triangles = (\<lambda>r. new_Triangle), nextTriangle = 0,
      trianglePool = Some \<lparr>pool = [], active = []\<rparr>,
      playerTriangles = [], aiTriangles = [], inputDefenses = [],
      decisionTimer = 0, accumulator = 0,
      gameManager = \<lparr>gameOver = False, endScreen = None\<rparr>,
      planetLostAlerts = 0, pendingOwner = [], shaking = []\<rparr>"

definition planet_at :: "real \<Rightarrow> real \<Rightarrow> Owner \<Rightarrow> nat \<Rightarrow> PlanetType \<Rightarrow> int \<Rightarrow> Planet" where
  "planet_at x y ow i ty n =
     \<lparr>planet_x = x, planet_y = y, p_owner = ow, p_id = i, p_type = ty, ships = n,
      defenseTriangle = None\<rparr>"

text \<open>
  Two planets 300 pixels apart, the attacker's at the origin, and one projectile of the
  attacker in flight towards the other planet, 3 pixels away from it. The projectile is
  slot 0 of the pool, marked active, and stands in the attacker's live-projectile list.
\<close>

definition world_in_flight :: "Side \<Rightarrow> World" where
  "world_in_flight side =
     (let attacker = (if side = PlayerSide then Player else AI);
          defender = (if side = PlayerSide then AI else Player)
      in (world_of [planet_at 0 0 attacker 0 Standard 10, planet_at 300 0 defender 1 Standard 10])
           \<lparr>triangles := (\<lambda>r. new_Triangle)
              (0 := (Triangle_init 0 0 300 0 attacker 1 new_Triangle)
                      \<lparr>tri_x := 297, traveledDistance := 297\<rparr>),
            nextTriangle := 1,
            trianglePool := Some \<lparr>pool = [0], active = [True]\<rparr>,
            playerTriangles := (if side = PlayerSide then [0] else []),
            aiTriangles := (if side = AISide then [0] else [])\<rparr>)"


section \<open>Properties of the Sun state machine\<close>

lemma sun_inv_start: "sun_inv (sun_start x y)"
  by (simp add: sun_inv_def sun_start_def new_Sun_def store_init_def SUN_MAX_HP_def)

lemma sun_inv_takeDamage: "sun_inv c \<Longrightarrow> sun_inv (snd (takeDamage a c))"
  by (cases c) (auto simp: sun_inv_def takeDamage_def damageSun_def captureSun_def Let_def)

lemma sun_inv_seq: "sun_inv c \<Longrightarrow> sun_inv (takeDamage_seq as c)"
  by (induction as arbitrary: c) (simp_all add: sun_inv_takeDamage)

lemma takeDamage_step:
  assumes "sun_inv c"
  shows "hp (fst (snd (takeDamage a c))) \<le> hp (fst c)"
    and "sunHP (snd (snd (takeDamage a c))) \<le> sunHP (snd c)"
    and "0 < hp (fst c) \<and> hp (fst (snd (takeDamage a c))) = 0 \<longrightarrow>
           fst (takeDamage a c) \<and> sun_owner (fst (snd (takeDamage a c))) = Some a \<and>
           sunOwner (snd (snd (takeDamage a c))) = Some a"
    and "sun_owner (fst c) \<noteq> None \<longrightarrow> takeDamage a c = (False, c)"
  using assms
  by (cases c; auto simp: sun_inv_def takeDamage_def damageSun_def captureSun_def Let_def)+

text \<open>
  Claim C1. Start a match (Sun HP at \<open>SUN_MAX_HP\<close>, no owner) and make any sequence of
  \<^verbatim>\<open>takeDamage\<close> calls, reaching a state \<open>c\<close>; then make one more call, by attacker
  \<open>a\<close>. In \<open>c\<close> the HP lies in \<open>[0, SUN_MAX_HP]\<close> and the owner is null exactly while
  HP is positive (the store's copy agrees). The further call never raises HP; if it brings
  HP from a positive value to 0 it returns true and sets the owner, on the Sun and in the
  store, to \<open>a\<close>; and if the owner was already set it changes nothing at all.
\<close>

theorem sun_state_machine_monotone_terminal:
  "(let c = takeDamage_seq as (sun_start x y);
        r = takeDamage a c;
        c' = snd r
    in 0 \<le> hp (fst c) \<and> hp (fst c) \<le> SUN_MAX_HP \<and> sunHP (snd c) = hp (fst c) \<and>
       (0 < hp (fst c) \<longrightarrow> sun_owner (fst c) = None \<and> sunOwner (snd c) = None) \<and>
       hp (fst c') \<le> hp (fst c) \<and> sunHP (snd c') \<le> sunHP (snd c) \<and>
       (0 < hp (fst c) \<and> hp (fst c') = 0 \<longrightarrow>
          fst r \<and> sun_owner (fst c') = Some a \<and> sunOwner (snd c') = Some a) \<and>
       (sun_owner (fst c) \<noteq> None \<longrightarrow> hp (fst c) = 0 \<and> r = (False, c)))"
proof -
  define c where "c = takeDamage_seq as (sun_start x y)"
  have inv: "sun_inv c"
    unfolding c_def by (rule sun_inv_seq [OF sun_inv_start])
  have facts: "0 \<le> hp (fst c)" "hp (fst c) \<le> SUN_MAX_HP" "sunHP (snd c) = hp (fst c)"
    "0 < hp (fst c) \<longrightarrow> sun_owner (fst c) = None \<and> sunOwner (snd c) = None"
    "sun_owner (fst c) \<noteq> None \<longrightarrow> hp (fst c) = 0"
    using inv by (cases c; auto simp: sun_inv_def)+
  show ?thesis
    unfolding Let_def c_def [symmetric]
    using facts takeDamage_step [OF inv, of a] by simp
qed

theorem sun_state_machine_witness:
  "(let c = takeDamage_seq [Player, AI] (sun_start 0 0);
        r = takeDamage Player c
    in hp (fst c) = 1 \<and> sun_owner (fst c) = None \<and> fst r \<and>
       hp (fst (snd r)) = 0 \<and> sun_owner (fst (snd r)) = Some Player \<and>
       sunOwner (snd (snd r)) = Some Player \<and>
       takeDamage AI (snd r) = (False, snd r))"
  using sun_state_machine_monotone_terminal [of "[Player, AI]" 0 0 Player]
  by (simp add: Let_def takeDamage_def damageSun_def captureSun_def sun_start_def
      new_Sun_def store_init_def SUN_MAX_HP_def)


section \<open>Properties of the cost model\<close>

lemma floor_clamp:
  fixes lo hi :: int
  assumes "lo \<le> hi"
  shows "\<lfloor>clamp v (of_int lo) (of_int hi)\<rfloor> = max lo (min hi \<lfloor>v\<rfloor>)"
proof -
  consider "v < of_int lo" | "of_int hi < v" | "of_int lo \<le> v" "v \<le> of_int hi"
    by linarith
  then show ?thesis
  proof cases
    case 1
    then have "\<lfloor>v\<rfloor> < lo" by (simp add: floor_less_iff)
    with 1 assms show ?thesis by (simp add: clamp_def)
  next
    case 2
    then have "hi \<le> \<lfloor>v\<rfloor>" by (simp add: le_floor_iff)
    moreover have "(of_int lo :: real) \<le> of_int hi" using assms by simp
    with 2 have "\<not> v < of_int lo" by linarith
    ultimately show ?thesis using 2 assms by (simp add: clamp_def)
  next
    case 3
    then have "lo \<le> \<lfloor>v\<rfloor>" "\<lfloor>v\<rfloor> \<le> hi"
      by (simp_all add: le_floor_iff floor_le_iff)
    with 3 show ?thesis by (simp add: clamp_def)
  qed
qed

lemma spec_typeModifier_config: "attackCostModifier (PLANET_TYPES ty) = spec_typeModifier ty"
  by (cases ty) simp_all

text \<open>
  Claim C2. For every source position, target position and source planet, the code's
  planet attack cost is the specification's clamped formula read as an integer, and so
  lies between \<open>ATTACK_COST_MIN\<close> and \<open>ATTACK_COST_MAX\<close>. The Sun attack cost is
  \<open>base + floor(overcharge * overchargeMultiplier)\<close> with no clamp: at overcharge 6
  it is 17, above \<open>ATTACK_COST_MAX\<close>.
\<close>

theorem attack_cost_clamped_sun_cost_unbounded:
  "calculateAttackCost sourcePos targetPos (Some p) = spec_planet_cost sourcePos targetPos (p_type p)
   \<and> ATTACK_COST_MIN \<le> calculateAttackCost sourcePos targetPos (Some p)
   \<and> calculateAttackCost sourcePos targetPos (Some p) \<le> ATTACK_COST_MAX
   \<and> getSunAttackCost st = ATTACK_COST_BASE + \<lfloor>sunOvercharge st * SUN_OVERCHARGE_MULTIPLIER\<rfloor>
   \<and> getSunAttackCost (store_init\<lparr>sunOvercharge := 6\<rparr>) = 17
   \<and> (\<exists>st'. getSunAttackCost st' > ATTACK_COST_MAX)"
proof -
  have le: "ATTACK_COST_MIN \<le> ATTACK_COST_MAX"
    by (simp add: ATTACK_COST_MIN_def ATTACK_COST_MAX_def)
  have eq: "calculateAttackCost sourcePos targetPos (Some p)
            = spec_planet_cost sourcePos targetPos (p_type p)"
    unfolding spec_planet_cost_def floor_clamp [OF le]
    by (simp add: calculateAttackCost_def euclid_def Let_def power2_eq_square
        spec_typeModifier_config)
  have bounds: "ATTACK_COST_MIN \<le> calculateAttackCost sourcePos targetPos (Some p)"
    "calculateAttackCost sourcePos targetPos (Some p) \<le> ATTACK_COST_MAX"
    using le by (simp_all add: calculateAttackCost_def Let_def)
  have sun: "getSunAttackCost (store_init\<lparr>sunOvercharge := 6\<rparr>) = 17"
    by (simp add: getSunAttackCost_def ATTACK_COST_BASE_def SUN_OVERCHARGE_MULTIPLIER_def)
  have "getSunAttackCost (store_init\<lparr>sunOvercharge := 6\<rparr>) > ATTACK_COST_MAX"
    by (simp add: sun ATTACK_COST_MAX_def)
  then have ex: "\<exists>st'. getSunAttackCost st' > ATTACK_COST_MAX" by blast
  show ?thesis
    using eq bounds sun ex by (simp add: getSunAttackCost_def)
qed



section \<open>Properties of the Sun attack cooldown and overcharge\<close>

lemma decay_ticks_nonneg:
  "0 \<le> sunOvercharge st \<Longrightarrow> 0 \<le> sunOvercharge (decay_ticks ds st)"
  by (induction ds arbitrary: st) (simp_all add: updateSunCooldown_def Let_def)

lemma decay_ticks_nonincreasing:
  "0 \<le> sunOvercharge st \<Longrightarrow> \<forall>d \<in> set ds. 0 \<le> d \<Longrightarrow>
   sunOvercharge (decay_ticks ds st) \<le> sunOvercharge st"
proof (induction ds arbitrary: st)
  case Nil
  then show ?case by simp
next
  case (Cons d ds)
  let ?st1 = "updateSunCooldown d st"
  have d: "0 \<le> d" using Cons.prems(2) by simp
  have oc1: "sunOvercharge ?st1 = max 0 (sunOvercharge st - SUN_OVERCHARGE_DECAY * (d / 60))"
    by (simp add: updateSunCooldown_def Let_def)
  have nn: "0 \<le> sunOvercharge ?st1" by (simp add: oc1)
  have le: "sunOvercharge ?st1 \<le> sunOvercharge st"
    using d Cons.prems(1) unfolding oc1 by (simp add: SUN_OVERCHARGE_DECAY_def)
  have "sunOvercharge (decay_ticks ds ?st1) \<le> sunOvercharge ?st1"
    using Cons.IH [OF nn] Cons.prems(2) by simp
  then show ?case using le by simp
qed

lemma sun_events_nonneg:
  "0 \<le> sunOvercharge st \<Longrightarrow> 0 \<le> sunOvercharge (sun_events evs st)"
proof (induction evs arbitrary: st)
  case Nil
  then show ?case by simp
next
  case (Cons e evs)
  have "0 \<le> sunOvercharge (apply_sun_event e st)"
    using Cons.prems
    by (cases e)
       (auto simp: updateSunCooldown_def registerSunAttack_def Let_def
          SUN_OVERCHARGE_MULTIPLIER_def split: option.splits)
  then show ?case using Cons.IH by simp
qed

lemma lastAttackOf_register:
  assumes "ow = Player \<or> ow = AI"
  shows "lastAttackOf ow (registerSunAttack ow now st) = now"
    and "lastAttackOf (otherFaction ow) (registerSunAttack ow now st)
           = lastAttackOf (otherFaction ow) st"
    and "lastAttackOf ow (registerSunAttack (otherFaction ow) now st) = lastAttackOf ow st"
  using assms
  by (auto simp: registerSunAttack_def lastAttackOf_def otherFaction_def Let_def)

lemma lastAttackOf_frame: "lastAttackOf ow (updateSunCooldown delta st) = lastAttackOf ow st"
  by (simp add: updateSunCooldown_def lastAttackOf_def Let_def)

lemma lastAttackOf_events:
  assumes "ow = Player \<or> ow = AI"
  shows "\<forall>e \<in> set evs. frame_or_attack_of (otherFaction ow) e \<Longrightarrow>
         lastAttackOf ow (sun_events evs st) = lastAttackOf ow st"
proof (induction evs arbitrary: st)
  case Nil
  then show ?case by simp
next
  case (Cons e evs)
  have "lastAttackOf ow (apply_sun_event e st) = lastAttackOf ow st"
  proof (cases e)
    case (Frame delta)
    then show ?thesis by (simp add: lastAttackOf_frame)
  next
    case (SunAttack a now)
    then have "a = otherFaction ow" using Cons.prems by simp
    then show ?thesis using SunAttack lastAttackOf_register(3) [OF assms] by simp
  qed
  then show ?case using Cons by simp
qed

lemma registerSunAttack_rule:
  assumes "ow = Player \<or> ow = AI"
  shows "sunOvercharge (registerSunAttack ow now st)
     = (if 0 < lastAttackOf ow st \<and> (now - lastAttackOf ow st) / 1000 < 5
        then sunOvercharge st + SUN_OVERCHARGE_MULTIPLIER else sunOvercharge st)"
  using assms
  by (auto simp: registerSunAttack_def lastAttackOf_def Let_def)

lemma registerSunAttack_cooldowns:
  assumes "ow = Player \<or> ow = AI"
  shows "cooldownOf ow (registerSunAttack ow now st) = SUN_ATTACK_COOLDOWN"
    and "cooldownOf (otherFaction ow) (registerSunAttack ow now st)
           = cooldownOf (otherFaction ow) st"
  using assms
  by (auto simp: registerSunAttack_def cooldownOf_def otherFaction_def Let_def)

text \<open>
  In the model's real arithmetic the decay of a run of frames adds up: the overcharge
  falls by the per-second rate times the elapsed seconds, down to 0. (Doubles round each
  frame's subtraction, so the program's value can differ from this sum in the last bits.)
\<close>

lemma decay_ticks_total:
  "0 \<le> sunOvercharge st \<Longrightarrow> \<forall>d \<in> set ds. 0 \<le> d \<Longrightarrow>
   sunOvercharge (decay_ticks ds st)
     = max 0 (sunOvercharge st - SUN_OVERCHARGE_DECAY * (sum_list ds / 60))"
proof (induction ds arbitrary: st)
  case Nil
  then show ?case by simp
next
  case (Cons d ds)
  let ?st1 = "updateSunCooldown d st"
  have oc1: "sunOvercharge ?st1 = max 0 (sunOvercharge st - SUN_OVERCHARGE_DECAY * (d / 60))"
    by (simp add: updateSunCooldown_def Let_def)
  have nn: "0 \<le> sunOvercharge ?st1" by (simp add: oc1)
  have rest: "\<forall>e \<in> set ds. 0 \<le> e" using Cons.prems(2) by simp
  have "0 \<le> sum_list ds" using rest by (simp add: sum_list_nonneg)
  then have pos: "0 \<le> SUN_OVERCHARGE_DECAY * (sum_list ds / 60)"
    by (simp add: SUN_OVERCHARGE_DECAY_def)
  have "sunOvercharge (decay_ticks (d # ds) st)
        = max 0 (sunOvercharge ?st1 - SUN_OVERCHARGE_DECAY * (sum_list ds / 60))"
    using Cons.IH [OF nn rest] by simp
  also have "\<dots> = max 0 (sunOvercharge st - SUN_OVERCHARGE_DECAY * (sum_list (d # ds) / 60))"
    using pos Cons.prems(1) unfolding oc1
    by (simp add: max_def algebra_simps add_divide_distrib)
  finally show ?case .
qed

text \<open>
  Claim C8. For a faction \<open>ow\<close> (player or AI), \<^verbatim>\<open>registerSunAttack(ow)\<close> sets that
  faction's cooldown to \<open>SUN_ATTACK_COOLDOWN\<close> and records the clock reading as that
  faction's last Sun attack, leaving the other faction's cooldown and record alone; the
  shared overcharge grows by exactly \<open>SUN_OVERCHARGE_MULTIPLIER\<close> if and only if that
  same faction has a previous Sun attack on record (its timestamp is positive) and fewer
  than 5 seconds (timestamps are milliseconds) have passed since; in every other case the
  overcharge is unchanged. Hence for two attacks of the same faction, at \<open>t1\<close> and then
  at \<open>t2\<close>, with any frames and any Sun attacks of the other faction in between: the
  second raises the overcharge by exactly the multiplier if and only if
  \<open>t2 - t1\<close> is below 5 seconds. A frame of \<open>delta\<close> lowers the overcharge by
  \<open>SUN_OVERCHARGE_DECAY * delta / 60\<close> (60 frames are a second) and stops at 0, lowers
  both cooldowns by \<open>delta\<close>, stopping at 0, and keeps the attack records; the
  overcharge never rises over frames and is never negative, whatever happens.
\<close>

theorem registerSunAttack_cooldown_and_overcharge:
  assumes "ow = Player \<or> ow = AI"
  shows
  "(let st' = registerSunAttack ow now st;
        rapid = (0 < lastAttackOf ow st \<and> (now - lastAttackOf ow st) / 1000 < 5)
    in cooldownOf ow st' = SUN_ATTACK_COOLDOWN
       \<and> cooldownOf (otherFaction ow) st' = cooldownOf (otherFaction ow) st
       \<and> lastAttackOf ow st' = now
       \<and> lastAttackOf (otherFaction ow) st' = lastAttackOf (otherFaction ow) st
       \<and> ((sunOvercharge st' = sunOvercharge st + SUN_OVERCHARGE_MULTIPLIER) = rapid)
       \<and> (if rapid then sunOvercharge st' = sunOvercharge st + SUN_OVERCHARGE_MULTIPLIER
          else sunOvercharge st' = sunOvercharge st))
   \<and> (0 < t1 \<and> (\<forall>e \<in> set evs. frame_or_attack_of (otherFaction ow) e) \<longrightarrow>
       (let s1 = sun_events evs (registerSunAttack ow t1 st);
            s2 = registerSunAttack ow t2 s1
        in lastAttackOf ow s1 = t1
           \<and> ((sunOvercharge s2 = sunOvercharge s1 + SUN_OVERCHARGE_MULTIPLIER)
                = ((t2 - t1) / 1000 < 5))
           \<and> (if (t2 - t1) / 1000 < 5
               then sunOvercharge s2 = sunOvercharge s1 + SUN_OVERCHARGE_MULTIPLIER
               else sunOvercharge s2 = sunOvercharge s1)))
   \<and> sunOvercharge (updateSunCooldown delta st)
       = max 0 (sunOvercharge st - SUN_OVERCHARGE_DECAY * (delta / 60))
   \<and> 0 \<le> sunOvercharge (updateSunCooldown delta st)
   \<and> cooldownOf ow (updateSunCooldown delta st) = max 0 (cooldownOf ow st - delta)
   \<and> 0 \<le> cooldownOf ow (updateSunCooldown delta st)
   \<and> lastAttackOf ow (updateSunCooldown delta st) = lastAttackOf ow st
   \<and> (0 \<le> sunOvercharge st \<and> (\<forall>d \<in> set ds. 0 \<le> d) \<longrightarrow>
        sunOvercharge (decay_ticks ds st) \<le> sunOvercharge st)
   \<and> (0 \<le> sunOvercharge st \<longrightarrow>
        0 \<le> sunOvercharge (decay_ticks ds st) \<and> 0 \<le> sunOvercharge (sun_events evs st))"
proof -
  have single: "(let st' = registerSunAttack ow now st;
        rapid = (0 < lastAttackOf ow st \<and> (now - lastAttackOf ow st) / 1000 < 5)
    in cooldownOf ow st' = SUN_ATTACK_COOLDOWN
       \<and> cooldownOf (otherFaction ow) st' = cooldownOf (otherFaction ow) st
       \<and> lastAttackOf ow st' = now
       \<and> lastAttackOf (otherFaction ow) st' = lastAttackOf (otherFaction ow) st
       \<and> ((sunOvercharge st' = sunOvercharge st + SUN_OVERCHARGE_MULTIPLIER) = rapid)
       \<and> (if rapid then sunOvercharge st' = sunOvercharge st + SUN_OVERCHARGE_MULTIPLIER
          else sunOvercharge st' = sunOvercharge st))"
    unfolding Let_def
    using registerSunAttack_cooldowns [OF assms, of now st]
      lastAttackOf_register(1,2) [OF assms, of now st]
    by (simp add: registerSunAttack_rule [OF assms] SUN_OVERCHARGE_MULTIPLIER_def)
  have pair: "0 < t1 \<and> (\<forall>e \<in> set evs. frame_or_attack_of (otherFaction ow) e) \<longrightarrow>
       (let s1 = sun_events evs (registerSunAttack ow t1 st);
            s2 = registerSunAttack ow t2 s1
        in lastAttackOf ow s1 = t1
           \<and> ((sunOvercharge s2 = sunOvercharge s1 + SUN_OVERCHARGE_MULTIPLIER)
                = ((t2 - t1) / 1000 < 5))
           \<and> (if (t2 - t1) / 1000 < 5
               then sunOvercharge s2 = sunOvercharge s1 + SUN_OVERCHARGE_MULTIPLIER
               else sunOvercharge s2 = sunOvercharge s1))"
  proof
    assume h: "0 < t1 \<and> (\<forall>e \<in> set evs. frame_or_attack_of (otherFaction ow) e)"
    let ?s1 = "sun_events evs (registerSunAttack ow t1 st)"
    have last: "lastAttackOf ow ?s1 = t1"
      using lastAttackOf_events [OF assms, of evs "registerSunAttack ow t1 st"] h
        lastAttackOf_register(1) [OF assms, of t1 st]
      by simp
    show "(let s1 = ?s1; s2 = registerSunAttack ow t2 s1
        in lastAttackOf ow s1 = t1
           \<and> ((sunOvercharge s2 = sunOvercharge s1 + SUN_OVERCHARGE_MULTIPLIER)
                = ((t2 - t1) / 1000 < 5))
           \<and> (if (t2 - t1) / 1000 < 5
               then sunOvercharge s2 = sunOvercharge s1 + SUN_OVERCHARGE_MULTIPLIER
               else sunOvercharge s2 = sunOvercharge s1))"
      unfolding Let_def
      using h last
      by (simp add: registerSunAttack_rule [OF assms] SUN_OVERCHARGE_MULTIPLIER_def)
  qed
  have frame: "sunOvercharge (updateSunCooldown delta st)
       = max 0 (sunOvercharge st - SUN_OVERCHARGE_DECAY * (delta / 60))"
    "0 \<le> sunOvercharge (updateSunCooldown delta st)"
    "cooldownOf ow (updateSunCooldown delta st) = max 0 (cooldownOf ow st - delta)"
    "0 \<le> cooldownOf ow (updateSunCooldown delta st)"
    by (simp_all add: updateSunCooldown_def cooldownOf_def Let_def)
  show ?thesis
    using single pair frame lastAttackOf_frame [of ow delta st]
      decay_ticks_nonincreasing [of st ds] decay_ticks_nonneg [of st ds]
      sun_events_nonneg [of st evs]
    by blast
qed

theorem registerSunAttack_witness:
  "sunOvercharge (registerSunAttack Player 3000 (registerSunAttack Player 1000 store_init)) = 2
   \<and> sunOvercharge (registerSunAttack Player 7000 (registerSunAttack Player 1000 store_init)) = 0
   \<and> sunOvercharge (registerSunAttack Player 3000
        (sun_events [Frame 60, SunAttack AI 2000, Frame 60]
           (registerSunAttack Player 1000 store_init))) = 2
   \<and> sunOvercharge (registerSunAttack AI 3000 (registerSunAttack Player 1000 store_init)) = 0
   \<and> sunAttackCooldown (registerSunAttack Player 1000 store_init) = 180
   \<and> sunAIAttackCooldown (registerSunAttack Player 1000 store_init) = 0
   \<and> lastSunAttackTime (registerSunAttack Player 1000 store_init) = 1000
   \<and> sunOvercharge (decay_ticks [60, 60]
        (registerSunAttack Player 3000 (registerSunAttack Player 1000 store_init))) = 1
   \<and> sunOvercharge (decay_ticks [60, 60, 60, 60, 60, 60, 60, 60, 60, 60]
        (registerSunAttack Player 3000 (registerSunAttack Player 1000 store_init))) = 0"
proof -
  let ?s1 = "registerSunAttack Player 1000 store_init"
  let ?evs = "[Frame 60, SunAttack AI 2000, Frame 60]"
  have p: "Player = Player \<or> Player = AI" by simp
  have oc0: "sunOvercharge store_init = 0" "lastAttackOf Player store_init = 0"
    "lastAttackOf AI store_init = 0" "cooldownOf AI store_init = 0"
    by (simp_all add: store_init_def lastAttackOf_def cooldownOf_def)
  note first = registerSunAttack_cooldown_and_overcharge [OF p, of 1000 store_init]
  have s1: "sunOvercharge ?s1 = 0" "sunAttackCooldown ?s1 = 180" "sunAIAttackCooldown ?s1 = 0"
    "lastSunAttackTime ?s1 = 1000" "lastAttackOf AI ?s1 = 0"
    using first [of 1000 "[]" 0 0 "[]"] oc0
    by (simp_all add: Let_def cooldownOf_def lastAttackOf_def otherFaction_def
        SUN_ATTACK_COOLDOWN_def)
  have quiet: "\<forall>e \<in> set ?evs. frame_or_attack_of (otherFaction Player) e"
    by (simp add: otherFaction_def)
  have a: "sunOvercharge (registerSunAttack Player 3000 ?s1) = 2"
    using first [of 1000 "[]" 3000 0 "[]"] s1
    by (simp add: Let_def SUN_OVERCHARGE_MULTIPLIER_def)
  have b: "sunOvercharge (registerSunAttack Player 7000 ?s1) = 0"
    using first [of 1000 "[]" 7000 0 "[]"] s1
    by (simp add: Let_def SUN_OVERCHARGE_MULTIPLIER_def)
  have mid: "sunOvercharge (sun_events ?evs ?s1) = 0"
    using s1
    by (simp add: updateSunCooldown_def registerSunAttack_def Let_def store_init_def
        SUN_OVERCHARGE_DECAY_def)
  have c: "sunOvercharge (registerSunAttack Player 3000 (sun_events ?evs ?s1)) = 2"
    using first [of 1000 ?evs 3000 0 "[]"] quiet mid
    by (simp add: Let_def SUN_OVERCHARGE_MULTIPLIER_def)
  have d: "sunOvercharge (registerSunAttack AI 3000 ?s1) = 0"
    using registerSunAttack_cooldown_and_overcharge [of AI 3000 ?s1 1000 "[]" 0 0 "[]"] s1
    by (simp add: Let_def)
  have e: "sunOvercharge (decay_ticks [60, 60] (registerSunAttack Player 3000 ?s1)) = 1"
    using decay_ticks_total [of "registerSunAttack Player 3000 ?s1" "[60, 60]"] a
    by (simp add: SUN_OVERCHARGE_DECAY_def)
  have f: "sunOvercharge (decay_ticks [60, 60, 60, 60, 60, 60, 60, 60, 60, 60]
        (registerSunAttack Player 3000 ?s1)) = 0"
    using decay_ticks_total [of "registerSunAttack Player 3000 ?s1"
        "[60, 60, 60, 60, 60, 60, 60, 60, 60, 60]"] a
    by (simp add: SUN_OVERCHARGE_DECAY_def)
  show ?thesis using a b c d e f s1 by simp
qed


section \<open>Properties of the majority threshold and of the timer tie-break\<close>

text \<open>
  Claim C10. \<^verbatim>\<open>getMajorityThreshold\<close> gives 5 for classic and for timeattack (and for an
  omitted argument) and 4 for quick only; the TIME_ATTACK mode configuration declares 4,
  which the function does not return for timeattack. The flag a frame sets on the Sun
  compares the player's planet count with that result.
\<close>

theorem majority_threshold_resolution:
  "getMajorityThreshold (Some Classic) = 5
   \<and> getMajorityThreshold (Some TimeAttack) = 5
   \<and> getMajorityThreshold (Some Quick) = 4
   \<and> getMajorityThreshold None = 5
   \<and> majorityThreshold GAME_MODES_TIME_ATTACK = 4
   \<and> getMajorityThreshold (Some TimeAttack) \<noteq> majorityThreshold GAME_MODES_TIME_ATTACK
   \<and> getMajorityThreshold (Some m) = (if m = Quick then 4 else 5)
   \<and> isAttackable (InputManager_update_sun ps st s)
       = (int (length (filter (\<lambda>p. p_owner p = Player) ps))
            \<ge> (if gameMode st = Quick then 4 else 5))"
  by (simp add: getMajorityThreshold_def GAME_MODES_QUICK_def GAME_MODES_CLASSIC_def
      GAME_MODES_TIME_ATTACK_def InputManager_update_sun_def setAttackable_def Let_def)

text \<open>
  Claim C9. When the game is not yet over, the Sun has no owner and the timer is at 0 (or
  below), \<^verbatim>\<open>checkWinCondition\<close> ends the game and leaves the store alone; it shows the
  victory screen exactly when the player owns strictly more planets than the AI, and the
  timer-defeat screen otherwise, so also when the counts are equal.
\<close>

theorem timer_expiry_tie_break:
  assumes "\<not> gameOver gm" and "sunOwner st = None" and "timer st \<le> 0"
  shows "(let np = length (filter (\<lambda>p. p_owner p = Player) ps);
              na = length (filter (\<lambda>p. p_owner p = AI) ps);
              r = checkWinCondition ps (gm, st)
          in fst r \<and> snd (snd r) = st \<and> gameOver (fst (snd r))
             \<and> (endScreen (fst (snd r)) = Some Victory) = (np > na)
             \<and> (endScreen (fst (snd r)) = Some (Defeat TimerExpired)) = (np \<le> na)
             \<and> (if np = na then endScreen (fst (snd r)) = Some (Defeat TimerExpired)
                 else True))"
  using assms
  by (simp add: checkWinCondition_def showVictory_def showDefeat_def showEndScreen_def Let_def)

theorem timer_expiry_tie_break_witness:
  "(let mk = (\<lambda>ow. \<lparr>planet_x = 0, planet_y = 0, p_owner = ow, p_id = 0, p_type = Standard,
                     ships = 0, defenseTriangle = None\<rparr>);
        gm = \<lparr>gameOver = False, endScreen = None\<rparr>;
        st = store_init\<lparr>timer := 0\<rparr>
    in endScreen (fst (snd (checkWinCondition [mk Player, mk AI, mk Neutral] (gm, st))))
         = Some (Defeat TimerExpired)
       \<and> endScreen (fst (snd (checkWinCondition [mk Player, mk Player, mk AI] (gm, st))))
         = Some Victory)"
proof -
  define mk where "mk = (\<lambda>ow. \<lparr>planet_x = 0, planet_y = 0, p_owner = ow, p_id = 0,
    p_type = Standard, ships = (0::int), defenseTriangle = None\<rparr>)"
  define gm where "gm = \<lparr>gameOver = False, endScreen = None\<rparr>"
  define st where "st = store_init\<lparr>timer := 0\<rparr>"
  have h: "\<not> gameOver gm" "sunOwner st = None" "timer st \<le> 0"
    by (simp_all add: gm_def st_def store_init_def)
  have a: "endScreen (fst (snd (checkWinCondition [mk Player, mk AI, mk Neutral] (gm, st))))
         = Some (Defeat TimerExpired)"
    using timer_expiry_tie_break [OF h, of "[mk Player, mk AI, mk Neutral]"]
    by (simp add: Let_def mk_def)
  have b: "endScreen (fst (snd (checkWinCondition [mk Player, mk Player, mk AI] (gm, st))))
         = Some Victory"
    using timer_expiry_tie_break [OF h, of "[mk Player, mk Player, mk AI]"]
    by (simp add: Let_def mk_def)
  show ?thesis
    unfolding Let_def mk_def [symmetric] gm_def [symmetric] st_def [symmetric]
    using a b by simp
qed


section \<open>Properties of the object pools\<close>

lemma indexOf_None_iff: "(indexOf xs x = None) = (x \<notin> set xs)"
  by (induction xs) auto

lemma indexOf_Some_nth: "indexOf xs x = Some i \<Longrightarrow> i < length xs \<and> xs ! i = x"
  by (induction xs arbitrary: i) (auto split: if_splits)

lemma first_inactive_Some:
  "(find (\<lambda>i. \<not> flag_at a i) [0..<n] = Some i)
     = (i < n \<and> \<not> flag_at a i \<and> (\<forall>j<i. flag_at a j))"
  by (auto simp: find_Some_iff)

lemma first_inactive_None:
  "(find (\<lambda>i. \<not> flag_at a i) [0..<n] = None) = (\<forall>i<n. flag_at a i)"
  by (auto simp: find_None_iff)

lemma flag_at_js_assign_same: "flag_at (js_assign a i v) i = v"
  by (auto simp: flag_at_def js_assign_def nth_append)

lemma acquire_first_inactive:
  "i < length (pool P) \<Longrightarrow> \<not> flag_at (active P) i \<Longrightarrow> \<forall>j<i. flag_at (active P) j \<Longrightarrow>
   acquire factory (P, h) = (Some (pool P ! i), P\<lparr>active := js_assign (active P) i True\<rparr>, h)"
  using first_inactive_Some [of "active P" "length (pool P)" i]
  by (simp add: acquire_def)

lemma acquire_grows:
  "\<forall>i<length (pool P). flag_at (active P) i \<Longrightarrow>
   acquire factory (P, h)
     = (Some (fst (factory h)),
        P\<lparr>pool := pool P @ [fst (factory h)], active := active P @ [True]\<rparr>,
        snd (factory h))"
  using first_inactive_None [of "active P" "length (pool P)"]
  by (simp add: acquire_def split_beta)

lemma acquire_never_null: "fst (acquire factory (P, h)) \<noteq> None"
  by (simp add: acquire_def split_beta split: option.splits)

lemma acquire_wf: "pool_wf P \<Longrightarrow> pool_wf (fst (snd (acquire factory (P, h))))"
  by (auto simp: acquire_def pool_wf_def split_beta js_assign_def first_inactive_Some
      split: option.splits)

lemma preallocate_wf:
  "pool_wf (fst c) \<Longrightarrow> pool_wf (fst (preallocate factory n c))"
  by (induction factory n c rule: preallocate.induct)
     (simp_all add: pool_wf_def split_beta)

lemma new_ObjectPool_wf: "pool_wf (fst (new_ObjectPool factory n h))"
  unfolding new_ObjectPool_def
  by (rule preallocate_wf) (simp add: pool_wf_def)

lemma ParticlePool_acquire_first_inactive:
  "i < length (pool Q) \<Longrightarrow> \<not> flag_at (active Q) i \<Longrightarrow> \<forall>j<i. flag_at (active Q) j \<Longrightarrow>
   ParticlePool_acquire (Q, g)
     = (Some (pool Q ! i), Q\<lparr>active := js_assign (active Q) i True\<rparr>,
        g(pool Q ! i := (g (pool Q ! i))\<lparr>visible := True, alpha := 1, drawn := False\<rparr>))"
  using first_inactive_Some [of "active Q" "length (pool Q)" i]
  by (simp add: ParticlePool_acquire_def Let_def)

lemma ParticlePool_acquire_exhausted:
  "\<forall>i<length (pool Q). flag_at (active Q) i \<Longrightarrow> ParticlePool_acquire (Q, g) = (None, Q, g)"
  using first_inactive_None [of "active Q" "length (pool Q)"]
  by (simp add: ParticlePool_acquire_def)

text \<open>
  Claim C6 as the claim states it, for the particle pool: acquisition never gives null.
  It does: with its only slot active, \<^verbatim>\<open>ParticlePool.acquire\<close> returns null.
\<close>

theorem particle_pool_acquire_null_counterexample:
  "fst (ParticlePool_acquire
          (\<lparr>pool = [0], active = [True]\<rparr>,
           (\<lambda>r. \<lparr>visible = True, alpha = 1, drawn = True, attached = True\<rparr>))) = None"
  by (simp add: ParticlePool_acquire_def flag_at_def)

text \<open>
  Claim C6, amended. \<^verbatim>\<open>ObjectPool.acquire\<close> never fails: when slot \<open>i\<close> is the first
  inactive one it returns that slot's item and marks the slot active, changing nothing
  else; when every slot is active it appends one item made by the factory, returns it, and
  (the two arrays having equal length, which the constructor establishes and acquire
  keeps) the new slot is active; it never returns null. \<^verbatim>\<open>ParticlePool.acquire\<close> does
  the same when an inactive slot exists (and makes the particle visible, opaque and
  blank), but when every slot is active it returns null and changes nothing.
\<close>

theorem acquire_first_inactive_or_grow:
  "(\<forall>i. i < length (pool P) \<and> \<not> flag_at (active P) i \<and> (\<forall>j<i. flag_at (active P) j) \<longrightarrow>
       acquire factory (P, h)
         = (Some (pool P ! i), P\<lparr>active := js_assign (active P) i True\<rparr>, h)
       \<and> flag_at (js_assign (active P) i True) i)
   \<and> ((\<forall>i<length (pool P). flag_at (active P) i) \<longrightarrow>
       acquire factory (P, h)
         = (Some (fst (factory h)),
            P\<lparr>pool := pool P @ [fst (factory h)], active := active P @ [True]\<rparr>,
            snd (factory h))
       \<and> getSize (fst (snd (acquire factory (P, h)))) = getSize P + 1
       \<and> (pool_wf P \<longrightarrow> flag_at (active P @ [True]) (length (pool P))))
   \<and> fst (acquire factory (P, h)) \<noteq> None
   \<and> (pool_wf P \<longrightarrow> pool_wf (fst (snd (acquire factory (P, h)))))
   \<and> pool_wf (fst (new_ObjectPool factory n h))
   \<and> (\<forall>i. i < length (pool Q) \<and> \<not> flag_at (active Q) i \<and> (\<forall>j<i. flag_at (active Q) j) \<longrightarrow>
       ParticlePool_acquire (Q, g)
         = (Some (pool Q ! i), Q\<lparr>active := js_assign (active Q) i True\<rparr>,
            g(pool Q ! i := (g (pool Q ! i))\<lparr>visible := True, alpha := 1, drawn := False\<rparr>))
       \<and> flag_at (js_assign (active Q) i True) i)
   \<and> ((\<forall>i<length (pool Q). flag_at (active Q) i) \<longrightarrow>
       ParticlePool_acquire (Q, g) = (None, Q, g))"
proof -
  have grow_size: "(\<forall>i<length (pool P). flag_at (active P) i) \<longrightarrow>
       getSize (fst (snd (acquire factory (P, h)))) = getSize P + 1"
    by (simp add: acquire_grows getSize_def)
  have grow_flag: "pool_wf P \<longrightarrow> flag_at (active P @ [True]) (length (pool P))"
    by (simp add: pool_wf_def flag_at_def nth_append)
  show ?thesis
    using acquire_first_inactive [of _ P factory h] acquire_grows [of P factory h]
      acquire_never_null [of factory P h] acquire_wf [of P factory h]
      new_ObjectPool_wf [of factory n h] grow_size grow_flag
      ParticlePool_acquire_first_inactive [of _ Q g] ParticlePool_acquire_exhausted [of Q g]
      flag_at_js_assign_same
    by blast
qed

theorem acquire_first_inactive_or_grow_witness:
  "acquire (\<lambda>h::nat. (h, Suc h)) (\<lparr>pool = [0, 1, 2], active = [True, False, False]\<rparr>, 3)
     = (Some 1, \<lparr>pool = [0, 1, 2], active = [True, True, False]\<rparr>, 3)
   \<and> acquire (\<lambda>h::nat. (h, Suc h)) (\<lparr>pool = [0, 1], active = [True, True]\<rparr>, 2)
     = (Some 2, \<lparr>pool = [0, 1, 2], active = [True, True, True]\<rparr>, 3)
   \<and> fst (ParticlePool_acquire
            (\<lparr>pool = [0, 1], active = [True, False]\<rparr>,
             (\<lambda>r. \<lparr>visible = False, alpha = 0, drawn = False, attached = False\<rparr>))) = Some 1
   \<and> fst (ParticlePool_acquire
            (\<lparr>pool = [0, 1], active = [True, True]\<rparr>,
             (\<lambda>r. \<lparr>visible = True, alpha = 1, drawn = True, attached = True\<rparr>))) = None"
proof -
  let ?f = "\<lambda>h::nat. (h, Suc h)"
  let ?P1 = "\<lparr>pool = [0::nat, 1, 2], active = [True, False, False]\<rparr>"
  let ?P2 = "\<lparr>pool = [0::nat, 1], active = [True, True]\<rparr>"
  let ?Q1 = "\<lparr>pool = [0::nat, 1], active = [True, False]\<rparr>"
  let ?g1 = "\<lambda>r::nat. \<lparr>visible = False, alpha = 0, drawn = False, attached = False\<rparr>"
  let ?g2 = "\<lambda>r::nat. \<lparr>visible = True, alpha = 1, drawn = True, attached = True\<rparr>"
  have all2: "\<forall>i<length (pool ?P2). flag_at (active ?P2) i"
    by (auto simp: flag_at_def less_Suc_eq numeral_2_eq_2)
  have first1: "1 < length (pool ?P1) \<and> \<not> flag_at (active ?P1) 1
      \<and> (\<forall>j<1. flag_at (active ?P1) j)"
    by (simp add: flag_at_def)
  have first2: "1 < length (pool ?Q1) \<and> \<not> flag_at (active ?Q1) 1
      \<and> (\<forall>j<1. flag_at (active ?Q1) j)"
    by (simp add: flag_at_def)
  note inst1 = acquire_first_inactive_or_grow [of ?P1 ?f 3 0 ?Q1 ?g1]
  note inst2 = acquire_first_inactive_or_grow [of ?P2 ?f 2 0 ?P2 ?g2]
  have a: "acquire ?f (?P1, 3) = (Some 1, \<lparr>pool = [0, 1, 2], active = [True, True, False]\<rparr>, 3)"
    using inst1 [THEN conjunct1, THEN spec, THEN mp, OF first1]
    by (simp add: js_assign_def)
  have b: "acquire ?f (?P2, 2) = (Some 2, \<lparr>pool = [0, 1, 2], active = [True, True, True]\<rparr>, 3)"
    using inst2 [THEN conjunct2, THEN conjunct1, THEN mp, OF all2]
    by simp
  have c: "fst (ParticlePool_acquire (?Q1, ?g1)) = Some 1"
    using inst1 [THEN conjunct2, THEN conjunct2, THEN conjunct2, THEN conjunct2,
        THEN conjunct2, THEN conjunct1, THEN spec, THEN mp, OF first2]
    by simp
  have d: "fst (ParticlePool_acquire (?P2, ?g2)) = None"
    using inst2 [THEN conjunct2, THEN conjunct2, THEN conjunct2, THEN conjunct2,
        THEN conjunct2, THEN conjunct2, THEN mp, OF all2]
    by simp
  show ?thesis using a b c d by simp
qed

lemma release_twice:
  "release reset t (release reset t (P, h)) = release reset t (P, h)"
  by (auto simp: release_def flag_at_js_assign_same split: option.splits)

lemma release_unknown: "t \<notin> set (pool P) \<Longrightarrow> release reset t (P, h) = (P, h)"
  by (simp add: release_def indexOf_None_iff [symmetric])

lemma release_inactive:
  "indexOf (pool P) t = Some i \<Longrightarrow> \<not> flag_at (active P) i \<Longrightarrow> release reset t (P, h) = (P, h)"
  by (simp add: release_def)

lemma ParticlePool_release_twice:
  "ParticlePool_release t (ParticlePool_release t (Q, g)) = ParticlePool_release t (Q, g)"
  by (auto simp: ParticlePool_release_def flag_at_js_assign_same split: option.splits)

lemma ParticlePool_release_unknown:
  "t \<notin> set (pool Q) \<Longrightarrow> ParticlePool_release t (Q, g) = (Q, g)"
  by (simp add: ParticlePool_release_def indexOf_None_iff [symmetric])

text \<open>
  Claim C7. In both pool classes, releasing an item twice in a row gives the same pool
  (every slot's flag, hence the active count) and the same objects as releasing it once;
  releasing an item that is not in the pool, or one whose slot is already inactive,
  changes nothing.
\<close>

theorem release_idempotent_and_defensive:
  "release reset t (release reset t (P, h)) = release reset t (P, h)
   \<and> active (fst (release reset t (release reset t (P, h)))) = active (fst (release reset t (P, h)))
   \<and> getActiveCount (fst (release reset t (release reset t (P, h))))
       = getActiveCount (fst (release reset t (P, h)))
   \<and> (t \<notin> set (pool P) \<longrightarrow> release reset t (P, h) = (P, h))
   \<and> (\<forall>i. indexOf (pool P) t = Some i \<and> \<not> flag_at (active P) i \<longrightarrow>
        release reset t (P, h) = (P, h))
   \<and> ParticlePool_release q (ParticlePool_release q (Q, g)) = ParticlePool_release q (Q, g)
   \<and> getActiveCount (fst (ParticlePool_release q (ParticlePool_release q (Q, g))))
       = getActiveCount (fst (ParticlePool_release q (Q, g)))
   \<and> (q \<notin> set (pool Q) \<longrightarrow> ParticlePool_release q (Q, g) = (Q, g))"
  using release_unknown [of t P reset h] release_inactive [of P t _ reset h]
    ParticlePool_release_unknown [of q Q g]
  by (simp add: release_twice ParticlePool_release_twice)

theorem release_idempotent_and_defensive_witness:
  "release (\<lambda>t h. t # h) 20 (\<lparr>pool = [10, 20::nat], active = [True, True]\<rparr>, [])
     = (\<lparr>pool = [10, 20], active = [True, False]\<rparr>, [20::nat])
   \<and> release (\<lambda>t h. t # h) 20
        (release (\<lambda>t h. t # h) 20 (\<lparr>pool = [10, 20::nat], active = [True, True]\<rparr>, []))
     = (\<lparr>pool = [10, 20], active = [True, False]\<rparr>, [20::nat])
   \<and> getActiveCount (fst (release (\<lambda>t h. t # h) 20
        (release (\<lambda>t h. t # h) 20 (\<lparr>pool = [10, 20::nat], active = [True, True]\<rparr>, [])))) = 1
   \<and> release (\<lambda>t h. t # h) 30 (\<lparr>pool = [10, 20::nat], active = [True, True]\<rparr>, [])
     = (\<lparr>pool = [10, 20], active = [True, True]\<rparr>, [])
   \<and> fst (ParticlePool_release 30
        (\<lparr>pool = [10, 20], active = [True, True]\<rparr>,
         (\<lambda>r. \<lparr>visible = True, alpha = 1, drawn = True, attached = True\<rparr>)))
     = \<lparr>pool = [10, 20], active = [True, True]\<rparr>"
proof -
  let ?P = "\<lparr>pool = [10, 20::nat], active = [True, True]\<rparr>"
  let ?reset = "\<lambda>(t::nat) (h::nat list). t # h"
  let ?g = "\<lambda>r::nat. \<lparr>visible = True, alpha = 1, drawn = True, attached = True\<rparr>"
  note inst = release_idempotent_and_defensive [of ?reset _ ?P "[]" 30 ?P ?g]
  have once: "release ?reset 20 (?P, [])
      = (\<lparr>pool = [10, 20], active = [True, False]\<rparr>, [20])"
    by (simp add: release_def flag_at_def js_assign_def)
  have "release ?reset 20 (release ?reset 20 (?P, [])) = release ?reset 20 (?P, [])"
    using inst [of 20] by simp
  then have twice: "release ?reset 20 (release ?reset 20 (?P, []))
      = (\<lparr>pool = [10, 20], active = [True, False]\<rparr>, [20])"
    using once by simp
  have cnt: "getActiveCount (fst (release ?reset 20 (release ?reset 20 (?P, [])))) = 1"
    using twice by (simp add: getActiveCount_def)
  have unk: "release ?reset 30 (?P, []) = (?P, [])"
    using inst [of 30] by simp
  have punk: "fst (ParticlePool_release 30 (?P, ?g)) = ?P"
    using inst [of 30] by simp
  show ?thesis
    using once twice cnt unk punk by simp
qed



section \<open>Properties of ship deduction\<close>

lemma removeShips_nonneg: "0 \<le> ships p \<Longrightarrow> 0 \<le> ships (snd (removeShips a p))"
  by (simp add: removeShips_def)

lemma removeShips_fails: "ships p < a \<Longrightarrow> removeShips a p = (False, p)"
  by (simp add: removeShips_def)

lemma planets_acquireTriangle: "planets (snd (acquireTriangle w)) = planets w"
  by (simp add: acquireTriangle_def split_beta split: option.splits)

lemma ships_nonneg_update:
  "ships_nonneg w \<Longrightarrow> 0 \<le> ships p \<Longrightarrow> planets w' = (planets w)[i := p] \<Longrightarrow> ships_nonneg w'"
  unfolding ships_nonneg_def
  by (metis insertE set_update_subset_insert subsetD)

lemma ships_nonneg_same: "ships_nonneg w \<Longrightarrow> planets w' = planets w \<Longrightarrow> ships_nonneg w'"
  by (simp add: ships_nonneg_def)

lemma planets_shake:
  "planets (shake i k r1 r2 w)
     = (planets w)[i := (planets w ! i)\<lparr>planet_x := planet_x (planets w ! i) + (r1 - 1 / 2) * k,
                                        planet_y := planet_y (planets w ! i) + (r2 - 1 / 2) * k\<rparr>]"
  by (simp add: shake_def jitter_def Let_def)

lemma shake_frame:
  "shake i k r1 r2 w = w\<lparr>planets := planets (shake i k r1 r2 w),
                            shaking := shaking (shake i k r1 r2 w)\<rparr>"
  by (simp add: shake_def jitter_def Let_def)

lemma ships_shake: "map ships (planets (shake i k r1 r2 w)) = map ships (planets w)"
proof (cases "i < length (planets w)")
  case True
  then show ?thesis
    by (simp add: planets_shake map_update list_update_same_conv)
next
  case False
  then have "length (planets w) \<le> i" by simp
  then show ?thesis by (simp add: planets_shake list_update_beyond)
qed

lemma owners_shake: "map p_owner (planets (shake i k r1 r2 w)) = map p_owner (planets w)"
proof (cases "i < length (planets w)")
  case True
  then show ?thesis
    by (simp add: planets_shake map_update list_update_same_conv)
next
  case False
  then have "length (planets w) \<le> i" by simp
  then show ?thesis by (simp add: planets_shake list_update_beyond)
qed

lemma ships_nonneg_nth: "ships_nonneg w \<Longrightarrow> i < length (planets w) \<Longrightarrow> 0 \<le> ships (planets w ! i)"
  by (simp add: ships_nonneg_def)

lemma deducts_nonneg:
  assumes "ships_nonneg w" and "i < length (planets w)" and "deducts i w w'"
  shows "ships_nonneg w'"
proof -
  have p: "0 \<le> ships (planets w ! i)" using assms(1,2) by (rule ships_nonneg_nth)
  from assms(3) consider "planets w' = planets w"
    | a where "planets w' = (planets w)[i := snd (removeShips a (planets w ! i))]"
    | a d where "planets w' = (planets w)[i := addDefense d (snd (removeShips a (planets w ! i)))]"
    | x y where "planets w' = (planets w)[i := (planets w ! i)\<lparr>planet_x := x, planet_y := y\<rparr>]"
    unfolding deducts_def by blast
  then show ?thesis
  proof cases
    case 1
    then show ?thesis using assms(1) by (simp add: ships_nonneg_same)
  next
    case 2
    then show ?thesis
      using ships_nonneg_update [OF assms(1) removeShips_nonneg [OF p]] by blast
  next
    case 3
    have "0 \<le> ships (addDefense d (snd (removeShips a (planets w ! i))))"
      using removeShips_nonneg [OF p, of a] by (simp add: addDefense_def)
    then show ?thesis
      using ships_nonneg_update [OF assms(1)] 3 by blast
  next
    case 4
    have "0 \<le> ships ((planets w ! i)\<lparr>planet_x := x, planet_y := y\<rparr>)"
      using p by simp
    then show ?thesis
      using ships_nonneg_update [OF assms(1)] 4 by blast
  qed
qed

lemma deducts_shake: "deducts i w (shake i k r1 r2 w)"
  unfolding deducts_def planets_shake by blast

lemma deducts_attack: "deducts src w (snd (attack src tgt r1 r2 w))"
proof -
  let ?c = "calculateAttackCost (getPosition (planets w ! src)) (getPosition (planets w ! tgt))
    (Some (planets w ! src))"
  let ?w1 = "w\<lparr>planets := (planets w)[src := snd (removeShips ?c (planets w ! src))]\<rparr>"
  show ?thesis
  proof (cases "ships (planets w ! src) < ?c")
    case True
    then show ?thesis by (simp add: attack_def Let_def deducts_shake)
  next
    case False
    have "planets (snd (attack src tgt r1 r2 w)) = planets (snd (acquireTriangle ?w1))"
      using False by (simp add: attack_def Let_def split: prod.splits option.splits)
    then show ?thesis unfolding deducts_def by (auto simp: planets_acquireTriangle)
  qed
qed

lemma deducts_AI_attackPlanet: "deducts src w (AI_attackPlanet src tgt w)"
proof -
  let ?c = "calculateAttackCost (getPosition (planets w ! src)) (getPosition (planets w ! tgt))
    (Some (planets w ! src))"
  let ?w1 = "w\<lparr>planets := (planets w)[src := snd (removeShips ?c (planets w ! src))]\<rparr>"
  show ?thesis
  proof (cases "ships (planets w ! src) < ?c")
    case True
    then show ?thesis by (simp add: AI_attackPlanet_def Let_def deducts_def)
  next
    case False
    have "planets (AI_attackPlanet src tgt w) = planets (snd (acquireTriangle ?w1))"
      using False by (simp add: AI_attackPlanet_def Let_def split: prod.splits option.splits)
    then show ?thesis unfolding deducts_def by (auto simp: planets_acquireTriangle)
  qed
qed

lemma deducts_attackSun: "deducts src w (snd (attackSun src now w))"
proof -
  let ?c = "getSunAttackCost (store w)"
  let ?w2 = "w\<lparr>store := registerSunAttack Player now (store w),
    planets := (planets w)[src := snd (removeShips ?c (planets w ! src))]\<rparr>"
  show ?thesis
  proof (cases "ships (planets w ! src) < ?c")
    case True
    then show ?thesis by (simp add: attackSun_def Let_def deducts_def)
  next
    case False
    have "planets (snd (attackSun src now w)) = planets (snd (acquireTriangle ?w2))"
      using False by (simp add: attackSun_def Let_def split: prod.splits option.splits)
    then show ?thesis unfolding deducts_def by (auto simp: planets_acquireTriangle)
  qed
qed

lemma deducts_AI_attackSun: "deducts src w (AI_attackSun src now w)"
proof -
  let ?c = "getSunAttackCost (store w)"
  let ?w2 = "w\<lparr>store := registerSunAttack AI now (store w),
    planets := (planets w)[src := snd (removeShips ?c (planets w ! src))]\<rparr>"
  show ?thesis
  proof (cases "\<not> canAttackSun AI (store w) \<or> ships (planets w ! src) < ?c")
    case True
    then show ?thesis by (auto simp: AI_attackSun_def Let_def deducts_def)
  next
    case False
    have "planets (AI_attackSun src now w) = planets (snd (acquireTriangle ?w2))"
      using False by (simp add: AI_attackSun_def Let_def split: prod.splits option.splits)
    then show ?thesis unfolding deducts_def by (auto simp: planets_acquireTriangle)
  qed
qed

lemma deducts_defendPlanet: "deducts i w (defendPlanet i r1 r2 w)"
proof (cases "ships (planets w ! i) < ATTACK_COST_BASE")
  case True
  then show ?thesis by (simp add: defendPlanet_def Let_def deducts_shake)
next
  case False
  then show ?thesis unfolding deducts_def by (auto simp: defendPlanet_def Let_def)
qed

lemma deducts_AI_defendPlanet: "deducts i w (AI_defendPlanet i w)"
  unfolding deducts_def by (auto simp: AI_defendPlanet_def Let_def)

lemma ships_nonneg_request: "ships_nonneg w \<Longrightarrow> ships_nonneg (apply_request r w)"
proof (cases r)
  case (PlayerAttack src tgt r1 r2)
  then show "ships_nonneg w \<Longrightarrow> ?thesis"
    using deducts_nonneg [OF _ _ deducts_attack] by simp
next
  case (PlayerAttackSun src now)
  then show "ships_nonneg w \<Longrightarrow> ?thesis"
    using deducts_nonneg [OF _ _ deducts_attackSun] by simp
next
  case (PlayerDefend i r1 r2)
  then show "ships_nonneg w \<Longrightarrow> ?thesis"
    using deducts_nonneg [OF _ _ deducts_defendPlanet] by simp
next
  case (AIAttackPlanet src tgt)
  then show "ships_nonneg w \<Longrightarrow> ?thesis"
    using deducts_nonneg [OF _ _ deducts_AI_attackPlanet] by simp
next
  case (AIAttackSun src now)
  then show "ships_nonneg w \<Longrightarrow> ?thesis"
    using deducts_nonneg [OF _ _ deducts_AI_attackSun] by simp
next
  case (AIDefend i)
  then show "ships_nonneg w \<Longrightarrow> ?thesis"
    using deducts_nonneg [OF _ _ deducts_AI_defendPlanet] by simp
qed

lemma ships_nonneg_requests: "ships_nonneg w \<Longrightarrow> ships_nonneg (apply_requests rs w)"
  by (induction rs arbitrary: w) (simp_all add: ships_nonneg_request)

text \<open>
  Claim C4. \<^verbatim>\<open>removeShips\<close> with an amount above the planet's ship count returns
  false and leaves the planet as it was. A request whose cost exceeds the source planet's
  ships deducts nothing: the AI's attack, Sun attack and defense and the player's Sun
  attack change nothing at all (the player's returns false); the player's attack returns
  false and its defense returns, and all they do is start the shake of the source planet,
  which moves that planet's container and changes no planet's ship count or owner and
  nothing else in the world. From a world where every planet has a non-negative ship
  count, every sequence of attack and defend requests leads to a world where every planet
  has a non-negative ship count.
\<close>

theorem ship_deduction_atomic_and_nonnegative:
  "(ships p < amount \<longrightarrow> removeShips amount p = (False, p))
   \<and> (ships (planets w ! src)
        < calculateAttackCost (getPosition (planets w ! src)) (getPosition (planets w ! tgt))
            (Some (planets w ! src))
      \<longrightarrow> attack src tgt r1 r2 w = (False, shake src 5 r1 r2 w)
          \<and> AI_attackPlanet src tgt w = w)
   \<and> (ships (planets w ! src) < getSunAttackCost (store w)
      \<longrightarrow> attackSun src now w = (False, w) \<and> AI_attackSun src now w = w)
   \<and> (ships (planets w ! src) < ATTACK_COST_BASE
      \<longrightarrow> defendPlanet src r1 r2 w = shake src 5 r1 r2 w \<and> AI_defendPlanet src w = w)
   \<and> map ships (planets (shake src k r1 r2 w)) = map ships (planets w)
   \<and> map p_owner (planets (shake src k r1 r2 w)) = map p_owner (planets w)
   \<and> shake src k r1 r2 w = w\<lparr>planets := planets (shake src k r1 r2 w),
                               shaking := shaking (shake src k r1 r2 w)\<rparr>
   \<and> (ships_nonneg w \<longrightarrow> ships_nonneg (apply_requests rs w))"
  using shake_frame [of src k r1 r2 w]
  by (simp add: removeShips_fails ships_nonneg_requests ships_shake owners_shake attack_def
      AI_attackPlanet_def attackSun_def AI_attackSun_def defendPlanet_def AI_defendPlanet_def
      Let_def)

theorem ship_deduction_witness:
  "fst (attack 0 1 (1 / 4) (3 / 4)
          (world_of [planet_at 0 0 Player 0 Standard 4, planet_at 0 0 AI 1 Standard 10]))
     = False
   \<and> map ships (planets (snd (attack 0 1 (1 / 4) (3 / 4)
          (world_of [planet_at 0 0 Player 0 Standard 4, planet_at 0 0 AI 1 Standard 10]))))
     = [4, 10]
   \<and> ships_nonneg
        (apply_requests
           [PlayerDefend 0 (1 / 4) (3 / 4), PlayerAttack 0 1 (1 / 4) (3 / 4),
            PlayerAttack 0 1 (1 / 4) (3 / 4), AIDefend 1]
           (world_of [planet_at 0 0 Player 0 Standard 12, planet_at 0 0 AI 1 Standard 3]))
   \<and> map ships (planets
        (apply_requests
           [PlayerDefend 0 (1 / 4) (3 / 4), PlayerAttack 0 1 (1 / 4) (3 / 4),
            PlayerAttack 0 1 (1 / 4) (3 / 4), AIDefend 1]
           (world_of [planet_at 0 0 Player 0 Standard 12, planet_at 0 0 AI 1 Standard 3])))
     = [2, 3]"
proof -
  let ?wB = "world_of [planet_at 0 0 Player 0 Standard 4, planet_at 0 0 AI 1 Standard 10]"
  let ?w = "world_of [planet_at 0 0 Player 0 Standard 12, planet_at 0 0 AI 1 Standard 3]"
  let ?rs = "[PlayerDefend 0 (1 / 4) (3 / 4), PlayerAttack 0 1 (1 / 4) (3 / 4),
            PlayerAttack 0 1 (1 / 4) (3 / 4), AIDefend 1]"
  have cost: "calculateAttackCost (getPosition (planets ?wB ! 0)) (getPosition (planets ?wB ! 1))
      (Some (planets ?wB ! 0)) = 5"
    by (simp add: calculateAttackCost_def world_of_def planet_at_def getPosition_def
        ATTACK_COST_BASE_def ATTACK_COST_MIN_def ATTACK_COST_MAX_def
        ATTACK_COST_DISTANCE_MULTIPLIER_def)
  have few: "ships (planets ?wB ! 0) = 4"
    by (simp add: world_of_def planet_at_def)
  have shipsB: "map ships (planets ?wB) = [4, 10]"
    by (simp add: world_of_def planet_at_def)
  have nn: "ships_nonneg ?w"
    by (simp add: ships_nonneg_def world_of_def planet_at_def)
  note inst = ship_deduction_atomic_and_nonnegative [of _ _ ?wB 0 1 "1 / 4" "3 / 4" 0 5 "[]"]
  have a: "attack 0 1 (1 / 4) (3 / 4) ?wB = (False, shake 0 5 (1 / 4) (3 / 4) ?wB)"
    using inst cost few by simp
  have a2: "map ships (planets (shake 0 5 (1 / 4) (3 / 4) ?wB)) = [4, 10]"
    using inst shipsB by simp
  have b: "ships_nonneg (apply_requests ?rs ?w)"
    using ship_deduction_atomic_and_nonnegative [of _ _ ?w 0 1 0 0 0 5 ?rs] nn by simp
  have c: "map ships (planets (apply_requests ?rs ?w)) = [2, 3]"
    by (simp add: world_of_def planet_at_def defendPlanet_def AI_defendPlanet_def attack_def
        shake_def jitter_def
        hasDefense_def removeShips_def addDefense_def calculateAttackCost_def getPosition_def
        acquireTriangle_def acquire_def Triangle_factory_def launchSpeed_def Let_def
        ATTACK_COST_BASE_def ATTACK_COST_MIN_def ATTACK_COST_MAX_def
        ATTACK_COST_DISTANCE_MULTIPLIER_def)
  show ?thesis using a a2 b c by simp
qed


section \<open>Properties of combat resolution\<close>

lemma closest_loop_index:
  "closest_loop triangle ps i best = Some (j, d) \<Longrightarrow>
   (\<exists>d'. best = Some (j, d')) \<or> (i \<le> j \<and> j < i + length ps)"
proof (induction ps arbitrary: i best)
  case Nil
  then show ?case by simp
next
  case (Cons p ps)
  let ?d = "(planet_x p - tri_x triangle) * (planet_x p - tri_x triangle)
    + (planet_y p - tri_y triangle) * (planet_y p - tri_y triangle)"
  let ?best = "case best of None \<Rightarrow> Some (i, ?d)
    | Some (c, m) \<Rightarrow> if ?d < m then Some (i, ?d) else Some (c, m)"
  have "closest_loop triangle ps (Suc i) ?best = Some (j, d)"
    using Cons.prems by (simp add: Let_def)
  from Cons.IH [OF this]
  show ?case by (auto split: option.splits if_splits)
qed

lemma closest_loop_in_range:
  "closest_loop triangle ps 0 None = Some (j, d) \<Longrightarrow> j < length ps"
  using closest_loop_index [of triangle ps 0 None j d] by simp

text \<open>
  Claim C5. A reached projectile resolves against planet \<open>i\<close> (the closest planet, within
  the hit radius) that holds a reference to an active defense \<open>d\<close> and whose owner is
  neither neutral nor the projectile's owner. Then the defense object becomes inactive,
  the planet drops its reference to it, and nothing else changes: the planet's other
  fields (owner, ships among them), the other planets, the store with its conquest
  counter, the count of "planet lost" notifications and the waiting owner changes.
\<close>

theorem active_defense_blocks_attack:
  assumes "closest_loop triangle (planets w) 0 None = Some (i, d2)" and "d2 < 2500"
    and "defenseTriangle (planets w ! i) = Some d" and "def_isActive (defenses w d)"
    and "p_owner (planets w ! i) \<noteq> Neutral"
    and "p_owner (planets w ! i) \<noteq> tri_owner triangle"
  shows "(let w' = resolveAttack triangle w
          in i < length (planets w)
             \<and> hasDefense (defenses w) (planets w ! i)
             \<and> w' = w\<lparr>defenses := (defenses w)(d := (defenses w d)\<lparr>def_isActive := False\<rparr>),
                      planets := (planets w)[i := (planets w ! i)\<lparr>defenseTriangle := None\<rparr>]\<rparr>
             \<and> \<not> def_isActive (defenses w' d)
             \<and> \<not> hasDefense (defenses w') (planets w' ! i)
             \<and> p_owner (planets w' ! i) = p_owner (planets w ! i)
             \<and> ships (planets w' ! i) = ships (planets w ! i)
             \<and> store w' = store w
             \<and> planetsConquered (store w') = planetsConquered (store w)
             \<and> planetLostAlerts w' = planetLostAlerts w
             \<and> pendingOwner w' = pendingOwner w)"
proof -
  have i: "i < length (planets w)"
    using assms(1) by (rule closest_loop_in_range)
  have hd: "hasDefense (defenses w) (planets w ! i)"
    using assms(3,4) by (simp add: hasDefense_def)
  have r: "resolveAttack triangle w
      = w\<lparr>defenses := (defenses w)(d := (defenses w d)\<lparr>def_isActive := False\<rparr>),
           planets := (planets w)[i := (planets w ! i)\<lparr>defenseTriangle := None\<rparr>]\<rparr>"
    using assms hd by (simp add: resolveAttack_def consumeDefense_def consume_def Let_def)
  show ?thesis
    unfolding Let_def r using i hd by (simp add: hasDefense_def)
qed

theorem active_defense_blocks_attack_witness:
  "(let w = (world_of [(planet_at 0 0 AI 0 Standard 7)\<lparr>defenseTriangle := Some 0\<rparr>])
              \<lparr>defenses := (\<lambda>d. \<lparr>def_owner = AI, def_isActive = True\<rparr>), nextDefense := 1\<rparr>;
        triangle = new_Triangle\<lparr>tri_x := 1, hasReached := True, tri_owner := Player,
                                tri_active := True\<rparr>;
        w' = resolveAttack triangle w
    in \<not> def_isActive (defenses w' 0) \<and> p_owner (planets w' ! 0) = AI
       \<and> ships (planets w' ! 0) = 7 \<and> planetsConquered (store w') = 0
       \<and> planetLostAlerts w' = 0 \<and> pendingOwner w' = [])"
proof -
  define w where "w = (world_of [(planet_at 0 0 AI 0 Standard 7)\<lparr>defenseTriangle := Some 0\<rparr>])
              \<lparr>defenses := (\<lambda>d. \<lparr>def_owner = AI, def_isActive = True\<rparr>), nextDefense := 1\<rparr>"
  define triangle where "triangle = new_Triangle\<lparr>tri_x := 1, hasReached := True,
    tri_owner := Player, tri_active := True\<rparr>"
  have h1: "closest_loop triangle (planets w) 0 None = Some (0, 1)"
    by (simp add: w_def triangle_def world_of_def planet_at_def new_Triangle_def)
  have h2: "(1::real) < 2500" by simp
  have h3: "defenseTriangle (planets w ! 0) = Some 0"
    by (simp add: w_def world_of_def planet_at_def)
  have h4: "def_isActive (defenses w 0)"
    by (simp add: w_def world_of_def)
  have h5: "p_owner (planets w ! 0) \<noteq> Neutral"
    by (simp add: w_def world_of_def planet_at_def)
  have h6: "p_owner (planets w ! 0) \<noteq> tri_owner triangle"
    by (simp add: w_def triangle_def world_of_def planet_at_def new_Triangle_def)
  have vals: "p_owner (planets w ! 0) = AI" "ships (planets w ! 0) = 7"
    "planetsConquered (store w) = 0" "planetLostAlerts w = 0" "pendingOwner w = []"
    by (simp_all add: w_def world_of_def planet_at_def store_init_def)
  show ?thesis
    unfolding w_def [symmetric] triangle_def [symmetric]
    using active_defense_blocks_attack [OF h1 h2 h3 h4 h5 h6] vals
    by (simp add: Let_def)
qed


section \<open>Projectiles that reach their target\<close>

lemma AI_triangle_loop_pool:
  "trianglePool (AI_triangle_loop delta n w) = trianglePool w"
  by (induction delta n w rule: AI_triangle_loop.induct) (simp_all add: Let_def)

lemma in_flight_fields:
  "gameManager (world_in_flight side) = \<lparr>gameOver = False, endScreen = None\<rparr>"
  "store (world_in_flight side) = store_init"
  "sun (world_in_flight side) = new_Sun 1000 1000"
  "decisionTimer (world_in_flight side) = 0"
  "accumulator (world_in_flight side) = 0"
  "inputDefenses (world_in_flight side) = []"
  "pendingOwner (world_in_flight side) = []"
  "nextTriangle (world_in_flight side) = 1"
  "trianglePool (world_in_flight side) = Some \<lparr>pool = [0], active = [True]\<rparr>"
  "defenses (world_in_flight side) = (\<lambda>d. \<lparr>def_owner = Neutral, def_isActive = False\<rparr>)"
  by (simp_all add: world_in_flight_def world_of_def Let_def)

lemma in_flight_pool:
  "trianglePool (world_in_flight side) = Some \<lparr>pool = [0], active = [True]\<rparr>"
  by (simp add: in_flight_fields)

lemma in_flight_lists:
  "aiTriangles (world_in_flight AISide) = [0]"
  "playerTriangles (world_in_flight AISide) = []"
  "aiTriangles (world_in_flight PlayerSide) = []"
  "playerTriangles (world_in_flight PlayerSide) = [0]"
  "planets (world_in_flight AISide)
     = [planet_at 0 0 AI 0 Standard 10, planet_at 300 0 Player 1 Standard 10]"
  "planets (world_in_flight PlayerSide)
     = [planet_at 0 0 Player 0 Standard 10, planet_at 300 0 AI 1 Standard 10]"
  by (simp_all add: world_in_flight_def world_of_def Let_def)

lemma in_flight_triangle:
  "triangles (world_in_flight side) 0
     = \<lparr>tri_x = 297, tri_y = 0, targetX = 300, targetY = 0, baseSpeed = 200,
        speedMultiplier = 1, tri_owner = (if side = PlayerSide then Player else AI),
        hasReached = False, totalDistanceSquared = 90000, traveledDistance = 297,
        isRageMode = False, tri_active = True, destroyed = False\<rparr>"
  by (simp add: world_in_flight_def world_of_def Let_def Triangle_init_def new_Triangle_def
      TRIANGLE_BASE_SPEED_def)

lemma in_flight_flags:
  "\<not> destroyed (triangles (world_in_flight side) 0)"
  "\<not> hasReached (triangles (world_in_flight side) 0)"
  "tri_x (triangles (world_in_flight side) 0) = 297"
  "tri_y (triangles (world_in_flight side) 0) = 0"
  "tri_owner (triangles (world_in_flight PlayerSide) 0) = Player"
  by (simp_all add: in_flight_triangle)

lemma in_flight_arrives:
  "Triangle_update 1 (triangles (world_in_flight side) 0)
     = (triangles (world_in_flight side) 0)\<lparr>hasReached := True\<rparr>"
  by (simp add: in_flight_triangle Triangle_update_def Let_def)

lemma in_flight_not_over:
  "checkWinCondition ps (gameManager (world_in_flight side), store (world_in_flight side))
     = (False, gameManager (world_in_flight side), store (world_in_flight side))"
  by (simp add: checkWinCondition_def in_flight_fields store_init_def)

lemma in_flight_sun: "Sun_update store_init (new_Sun 1000 1000) = new_Sun 1000 1000"
  by (simp add: Sun_update_def store_init_def new_Sun_def SUN_MAX_HP_def)

lemma in_flight_cooldown: "updateSunCooldown 1 store_init = store_init"
  by (simp add: updateSunCooldown_def store_init_def Let_def SUN_OVERCHARGE_DECAY_def)

lemma in_flight_gate:
  "InputManager_update_sun [planet_at 0 0 a i Standard 10, planet_at 300 0 b j Standard 10]
     store_init (new_Sun 1000 1000) = new_Sun 1000 1000"
  by (simp add: InputManager_update_sun_def setAttackable_def new_Sun_def Let_def
      planet_at_def getMajorityThreshold_def GAME_MODES_CLASSIC_def store_init_def)

lemma InputManager_update_idle:
  assumes "InputManager_update_sun (planets w) (store w) (sun w) = sun w"
    and "inputDefenses w = []"
  shows "InputManager_update w = w"
  using assms by (simp add: InputManager_update_def)

text \<open>
  A frame in which the game is not over and the store's Sun fields are at rest: what is
  left is production and the phases that move, resolve and clean up projectiles.
\<close>

lemma gameLoop_playing:
  assumes "checkWinCondition (planets w) (gameManager w, store w)
             = (False, gameManager w, store w)"
    and "Sun_update (store w) (sun w) = sun w"
    and "ProductionSystem_update delta w = w2"
    and "updateSunCooldown delta (store w2) = store w2"
  shows "gameLoop decide delta w
     = cleanupReachedTriangles AISide (cleanupReachedTriangles PlayerSide
         (CombatSystem_update (updateTriangles AISide delta (updateTriangles PlayerSide delta
            (InputManager_update (AISystem_update decide delta w2))))))"
  using assms by (simp add: gameLoop_def Let_def)

text \<open>The first phases of the frame, up to the AI's update, on the AI's side.\<close>

lemma ai_frame_AISystem:
  "AISystem_update (\<lambda>w. w) 1 ((world_in_flight AISide)\<lparr>accumulator := 1\<rparr>)
     = (world_in_flight AISide)
         \<lparr>accumulator := 1, decisionTimer := 1,
          triangles := (triangles (world_in_flight AISide))
            (0 := (triangles (world_in_flight AISide) 0)\<lparr>hasReached := True\<rparr>),
          aiTriangles := []\<rparr>"
  by (simp add: AISystem_update_def in_flight_fields in_flight_lists Let_def
      in_flight_arrives splice1_def)

lemma ai_frame:
  "gameLoop (\<lambda>w. w) 1 (world_in_flight AISide)
     = (world_in_flight AISide)
         \<lparr>accumulator := 1, decisionTimer := 1,
          triangles := (triangles (world_in_flight AISide))
            (0 := (triangles (world_in_flight AISide) 0)\<lparr>hasReached := True\<rparr>),
          aiTriangles := []\<rparr>"
proof -
  let ?w = "world_in_flight AISide"
  let ?w5 = "?w\<lparr>accumulator := 1, decisionTimer := 1,
          triangles := (triangles ?w)(0 := (triangles ?w 0)\<lparr>hasReached := True\<rparr>),
          aiTriangles := []\<rparr>"
  have prod: "ProductionSystem_update 1 ?w = ?w\<lparr>accumulator := 1\<rparr>"
    by (simp add: ProductionSystem_update_def in_flight_fields Let_def)
  have inp: "InputManager_update ?w5 = ?w5"
    by (rule InputManager_update_idle)
       (simp_all add: in_flight_fields in_flight_lists in_flight_gate)
  have upd: "updateTriangles side 1 ?w5 = ?w5" for side
    by (cases side) (simp_all add: updateTriangles_def getTriangles_def in_flight_lists)
  have comb: "CombatSystem_update ?w5 = ?w5"
    by (simp add: CombatSystem_update_def in_flight_lists Let_def)
  have clean: "cleanupReachedTriangles side ?w5 = ?w5" for side
    by (cases side) (simp_all add: cleanupReachedTriangles_def getTriangles_def in_flight_lists)
  have "gameLoop (\<lambda>w. w) 1 ?w
     = cleanupReachedTriangles AISide (cleanupReachedTriangles PlayerSide
         (CombatSystem_update (updateTriangles AISide 1 (updateTriangles PlayerSide 1
            (InputManager_update (AISystem_update (\<lambda>w. w) 1 (?w\<lparr>accumulator := 1\<rparr>)))))))"
    by (rule gameLoop_playing [OF in_flight_not_over _ prod])
       (simp_all add: in_flight_fields in_flight_sun in_flight_cooldown)
  then show ?thesis
    by (simp only: ai_frame_AISystem inp upd comb clean)
qed

text \<open>A frame with no projectile in either list, early in a second of play.\<close>

lemma gameLoop_quiet:
  assumes "checkWinCondition (planets w) (gameManager w, store w)
             = (False, gameManager w, store w)"
    and "Sun_update (store w) (sun w) = sun w"
    and "updateSunCooldown delta (store w) = store w"
    and "InputManager_update_sun (planets w) (store w) (sun w) = sun w"
    and "inputDefenses w = []" and "playerTriangles w = []" and "aiTriangles w = []"
    and "accumulator w + delta < 60" and "decisionTimer w + delta < 60"
  shows "gameLoop decide delta w
     = w\<lparr>accumulator := accumulator w + delta, decisionTimer := decisionTimer w + delta\<rparr>"
proof -
  let ?w2 = "w\<lparr>accumulator := accumulator w + delta\<rparr>"
  let ?w4 = "w\<lparr>accumulator := accumulator w + delta, decisionTimer := decisionTimer w + delta\<rparr>"
  have prod: "ProductionSystem_update delta w = ?w2"
    using assms(8) by (simp add: ProductionSystem_update_def Let_def)
  have ai: "AISystem_update decide delta ?w2 = ?w4"
    using assms(7,9) by (simp add: AISystem_update_def Let_def)
  have inp: "InputManager_update ?w4 = ?w4"
    by (rule InputManager_update_idle) (simp_all add: assms)
  have upd: "updateTriangles side delta ?w4 = ?w4" for side
    by (cases side) (simp_all add: updateTriangles_def getTriangles_def assms)
  have comb: "CombatSystem_update ?w4 = ?w4"
    by (simp add: CombatSystem_update_def Let_def assms)
  have clean: "cleanupReachedTriangles side ?w4 = ?w4" for side
    by (cases side) (simp_all add: cleanupReachedTriangles_def getTriangles_def assms)
  have "gameLoop decide delta w
     = cleanupReachedTriangles AISide (cleanupReachedTriangles PlayerSide
         (CombatSystem_update (updateTriangles AISide delta (updateTriangles PlayerSide delta
            (InputManager_update (AISystem_update decide delta ?w2))))))"
    by (rule gameLoop_playing [OF assms(1,2) prod]) (simp add: assms)
  then show ?thesis
    by (simp only: ai inp upd comb clean)
qed

lemma ai_frame_again:
  "gameLoop (\<lambda>w. w) 1 (gameLoop (\<lambda>w. w) 1 (world_in_flight AISide))
     = (world_in_flight AISide)
         \<lparr>accumulator := 2, decisionTimer := 2,
          triangles := (triangles (world_in_flight AISide))
            (0 := (triangles (world_in_flight AISide) 0)\<lparr>hasReached := True\<rparr>),
          aiTriangles := []\<rparr>"
proof -
  let ?w = "world_in_flight AISide"
  let ?w5 = "?w\<lparr>accumulator := 1, decisionTimer := 1,
          triangles := (triangles ?w)(0 := (triangles ?w 0)\<lparr>hasReached := True\<rparr>),
          aiTriangles := []\<rparr>"
  have "gameLoop (\<lambda>w. w) 1 ?w5
      = ?w5\<lparr>accumulator := accumulator ?w5 + 1, decisionTimer := decisionTimer ?w5 + 1\<rparr>"
    by (rule gameLoop_quiet)
       (simp_all add: in_flight_fields in_flight_lists in_flight_sun in_flight_cooldown
          in_flight_gate in_flight_not_over [simplified in_flight_fields])
  then show ?thesis by (simp add: ai_frame)
qed

text \<open>The same projectile on the player's side, for comparison.\<close>

lemma player_frame:
  "gameLoop (\<lambda>w. w) 1 (world_in_flight PlayerSide)
     = (world_in_flight PlayerSide)
         \<lparr>accumulator := 1, decisionTimer := 1,
          triangles := (triangles (world_in_flight PlayerSide))
            (0 := (triangles (world_in_flight PlayerSide) 0)
                    \<lparr>tri_active := False, hasReached := True\<rparr>),
          playerTriangles := [],
          trianglePool := Some \<lparr>pool = [0], active = [False]\<rparr>,
          pendingOwner := [(1, Player)],
          store := store_init\<lparr>planetsConquered := 1\<rparr>\<rparr>"
proof -
  let ?w = "world_in_flight PlayerSide"
  let ?t = "triangles ?w 0"
  let ?w4 = "?w\<lparr>accumulator := 1, decisionTimer := 1\<rparr>"
  let ?w6 = "?w4\<lparr>triangles := (triangles ?w)(0 := ?t\<lparr>hasReached := True\<rparr>)\<rparr>"
  let ?w8 = "?w\<lparr>accumulator := 1, decisionTimer := 1,
          triangles := (triangles ?w)(0 := ?t\<lparr>tri_active := False, hasReached := True\<rparr>),
          playerTriangles := [],
          trianglePool := Some \<lparr>pool = [0], active = [False]\<rparr>,
          pendingOwner := [(1, Player)],
          store := store_init\<lparr>planetsConquered := 1\<rparr>\<rparr>"
  have prod: "ProductionSystem_update 1 ?w = ?w\<lparr>accumulator := 1\<rparr>"
    by (simp add: ProductionSystem_update_def in_flight_fields Let_def)
  have ai: "AISystem_update (\<lambda>w. w) 1 (?w\<lparr>accumulator := 1\<rparr>) = ?w4"
    by (simp add: AISystem_update_def in_flight_fields in_flight_lists Let_def)
  have inp: "InputManager_update ?w4 = ?w4"
    by (rule InputManager_update_idle)
       (simp_all add: in_flight_fields in_flight_lists in_flight_gate)
  have updP: "updateTriangles PlayerSide 1 ?w4 = ?w6"
    by (simp add: updateTriangles_def getTriangles_def in_flight_lists in_flight_arrives
        in_flight_flags Let_def)
  have updA: "updateTriangles AISide 1 ?w6 = ?w6"
    by (simp add: updateTriangles_def getTriangles_def in_flight_lists)
  have far: "\<not> checkSunHit (?t\<lparr>hasReached := True\<rparr>) ?w6"
    by (simp add: checkSunHit_def in_flight_fields in_flight_flags new_Sun_def
        SUN_HIT_THRESHOLD_def Let_def)
  have res: "resolveAttack (?t\<lparr>hasReached := True\<rparr>) ?w6
      = ?w6\<lparr>pendingOwner := [(1, Player)], store := store_init\<lparr>planetsConquered := 1\<rparr>\<rparr>"
    by (simp add: resolveAttack_def in_flight_fields in_flight_lists in_flight_flags
        planet_at_def hasDefense_def incrementConquests_def store_init_def Let_def)
  have rel: "releaseTriangle 0
        (?w6\<lparr>pendingOwner := [(1, Player)], store := store_init\<lparr>planetsConquered := 1\<rparr>\<rparr>)
      = ?w6\<lparr>pendingOwner := [(1, Player)], store := store_init\<lparr>planetsConquered := 1\<rparr>,
             trianglePool := Some \<lparr>pool = [0], active = [False]\<rparr>,
             triangles := (triangles ?w)(0 := ?t\<lparr>tri_active := False, hasReached := True\<rparr>)\<rparr>"
    by (simp add: releaseTriangle_def release_def pool_reset_def Triangle_reset_def
        flag_at_def js_assign_def in_flight_pool Let_def)
  have comb: "CombatSystem_update ?w6 = ?w8"
    by (simp add: CombatSystem_update_def getTriangles_def setTriangles_def splice1_def
        in_flight_lists far res rel Let_def del: One_nat_def)
  have clean: "cleanupReachedTriangles side ?w8 = ?w8" for side
    by (cases side) (simp_all add: cleanupReachedTriangles_def getTriangles_def in_flight_lists)
  have "gameLoop (\<lambda>w. w) 1 ?w
     = cleanupReachedTriangles AISide (cleanupReachedTriangles PlayerSide
         (CombatSystem_update (updateTriangles AISide 1 (updateTriangles PlayerSide 1
            (InputManager_update (AISystem_update (\<lambda>w. w) 1 (?w\<lparr>accumulator := 1\<rparr>)))))))"
    by (rule gameLoop_playing [OF in_flight_not_over _ prod])
       (simp_all add: in_flight_fields in_flight_sun in_flight_cooldown)
  then show ?thesis
    by (simp only: ai inp updP updA comb clean)
qed

text \<open>
  Claim C3 says that every projectile whose reached flag becomes true during a frame is
  released to the pool, on the AI's list as on the player's. The code does not do so on
  the AI's list. \<^verbatim>\<open>AISystem.update\<close> advances the AI's projectiles itself and splices
  the ones that have reached out of the list without releasing them; its loop never
  touches the pool. In the world \<open>world_in_flight AISide\<close> one frame leaves the
  projectile flagged reached, in no list, its pool slot still active and the attack
  unresolved, and the next frame changes none of that. The same projectile on the
  player's side is resolved, reset and released within the frame.
\<close>

theorem ai_reached_projectile_dropped_not_released:
  "(let w0 = world_in_flight AISide;
        w1 = gameLoop (\<lambda>w. w) 1 w0;
        w2 = gameLoop (\<lambda>w. w) 1 w1
    in hasReached (triangles w1 0) \<and> tri_active (triangles w1 0)
       \<and> aiTriangles w1 = [] \<and> playerTriangles w1 = []
       \<and> trianglePool w1 = Some \<lparr>pool = [0], active = [True]\<rparr>
       \<and> trianglePool w2 = Some \<lparr>pool = [0], active = [True]\<rparr>
       \<and> hasReached (triangles w2 0) \<and> tri_active (triangles w2 0)
       \<and> aiTriangles w2 = [] \<and> playerTriangles w2 = []
       \<and> planets w2 = planets w0 \<and> pendingOwner w2 = [])
   \<and> (let w1 = gameLoop (\<lambda>w. w) 1 (world_in_flight PlayerSide)
       in hasReached (triangles w1 0) \<and> \<not> tri_active (triangles w1 0)
          \<and> playerTriangles w1 = [] \<and> aiTriangles w1 = []
          \<and> trianglePool w1 = Some \<lparr>pool = [0], active = [False]\<rparr>
          \<and> pendingOwner w1 = [(1, Player)])
   \<and> trianglePool (AI_triangle_loop delta n w) = trianglePool w"
proof -
  note second = ai_frame_again
  note first = ai_frame player_frame
  show ?thesis
    unfolding Let_def
    by (simp only: second, simp only: first)
       (simp add: in_flight_fields in_flight_lists in_flight_triangle AI_triangle_loop_pool)
qed

end
